theory Spec2Isabelle
  imports Main "HOL-Library.Sublist" "HOL-Library.Char_ord" "HOL-Library.List_Lexorder"
begin

section \<open>TaskFlow: the storage layer, the access layer and the filtered view of app.js\<close>

text \<open>
  The development follows \<^verbatim>\<open>src/app.js\<close>: class \<^verbatim>\<open>TaskDB\<close> (the storage layer over
  \<^verbatim>\<open>localStorage\<close>), class \<^verbatim>\<open>TaskAPI\<close> (the access layer) and the filter and search
  methods of \<^verbatim>\<open>AppComponent\<close>.

  Conventions of the embedding.
  \<^item> A JavaScript number that holds an integer is the \<^typ>\<open>int\<close> of its value. The
    results of \<^verbatim>\<open>+ 1\<close> and of \<^verbatim>\<open>parseInt\<close> are rounded to the nearest double, as the
    runtime does; \<^verbatim>\<open>Math.max\<close> and \<^verbatim>\<open>===\<close> are exact on doubles.
  \<^item> A JavaScript string is a \<^typ>\<open>string\<close> of code units below 256 (the Latin-1 range
    of Unicode).
  \<^item> A Task object is as in the data model of the application: a numeric \<^verbatim>\<open>id\<close>
    together with string-valued properties, kept in insertion order. \<^verbatim>\<open>undefined\<close> and
    \<^verbatim>\<open>null\<close> results are \<open>None\<close>.
  \<^item> A thrown exception is \<open>Inl\<close> of the error; a method that mutates the storage slot
    returns the new slot beside its result.
  \<^item> \<^verbatim>\<open>new Date().toISOString()\<close> is a parameter of the method that reads the clock.
\<close>

subsection \<open>Values\<close>

datatype error = SyntaxError | TypeError

type_synonym properties = "(string \<times> string) list"

record task =
  task_id :: int
  props :: properties

text \<open>
  The argument of \<^verbatim>\<open>createTask\<close> and \<^verbatim>\<open>updateTask\<close> (\<^verbatim>\<open>taskData\<close>, \<^verbatim>\<open>updateData\<close>): an
  object that may or may not carry an \<^verbatim>\<open>id\<close>, and any string-valued properties.
\<close>

record fields =
  given_id :: "int option"
  given_props :: properties

text \<open>Reading a property: \<^verbatim>\<open>task.title\<close> is \<open>get_prop ''title'' t\<close>; \<open>None\<close> is \<^verbatim>\<open>undefined\<close>.\<close>

definition get_prop :: "string \<Rightarrow> task \<Rightarrow> string option" where
  "get_prop k t = map_of (props t) k"

text \<open>
  Writing one property of an object literal: an existing key keeps its position and takes
  the new value, a new key goes to the end.
\<close>

fun set_prop :: "string \<Rightarrow> string \<Rightarrow> properties \<Rightarrow> properties" where
  "set_prop k v [] = [(k, v)]"
| "set_prop k v ((k', v') # ps) =
     (if k' = k then (k, v) # ps else (k', v') # set_prop k v ps)"

text \<open>The spread \<^verbatim>\<open>{...obj, ...src}\<close> on the string-valued properties: \<open>src\<close> is copied
  over \<open>obj\<close> key by key, from left to right.\<close>

fun spread :: "properties \<Rightarrow> properties \<Rightarrow> properties" where
  "spread obj [] = obj"
| "spread obj ((k, v) # src) = spread (set_prop k v obj) src"

text \<open>The spread on the \<^verbatim>\<open>id\<close>: the argument's \<^verbatim>\<open>id\<close> wins when it has one.\<close>

definition spread_id :: "int \<Rightarrow> int option \<Rightarrow> int" where
  "spread_id i g = (case g of None \<Rightarrow> i | Some j \<Rightarrow> j)"

text \<open>
  The argument carries an id: it has a numeric \<^verbatim>\<open>id\<close>, or an \<^verbatim>\<open>id\<close> among its string-valued
  properties.
\<close>

definition carries_id :: "fields \<Rightarrow> bool" where
  "carries_id taskData =
     (case given_id taskData of
        Some i \<Rightarrow> True
      | None \<Rightarrow> (case map_of (given_props taskData) ''id'' of Some v \<Rightarrow> True | None \<Rightarrow> False))"

subsection \<open>Numbers\<close>

text \<open>The number of binary digits of a natural number.\<close>

fun bit_length :: "nat \<Rightarrow> nat" where
  "bit_length n = (if n = 0 then 0 else Suc (bit_length (n div 2)))"

declare bit_length.simps [simp del]

text \<open>
  The double nearest to an integer, as an integer: up to 53 binary digits the integer
  itself; beyond, the nearest multiple of the power of two that leaves 53 digits, a tie
  going to the even multiple.
\<close>

definition round_double :: "int \<Rightarrow> int" where
  "round_double n =
     (let a = nat \<bar>n\<bar> in
      if a < 2 ^ 53 then n
      else
        let q = 2 ^ (bit_length a - 53);
            m = a div q;
            r = a mod q;
            m' = (if q < 2 * r \<or> (2 * r = q \<and> odd m) then m + 1 else m)
        in sgn n * int (m' * q))"

text \<open>The number values that \<^verbatim>\<open>parseInt\<close> can return.\<close>

datatype number = NaN | Infinity | Minus_Infinity | Finite int

text \<open>
  The number value of a numeral with its sign: the mathematical value is rounded to a
  double, and a value beyond the largest finite double is an infinity.
\<close>

definition signed_number :: "int \<Rightarrow> nat \<Rightarrow> number" where
  "signed_number sign mathInt =
     (let d = round_double (int mathInt) in
      if 2 ^ 1024 \<le> d then (if sign < 0 then Minus_Infinity else Infinity)
      else Finite (sign * d))"

subsection \<open>Strings: whitespace, \<^verbatim>\<open>parseInt\<close>, \<^verbatim>\<open>toLowerCase\<close>, \<^verbatim>\<open>includes\<close>, \<^verbatim>\<open>trim\<close>\<close>

text \<open>The white space and line terminators of ECMAScript below 256; \<open>0xA0\<close> is the
  no-break space.\<close>

definition is_ws :: "char \<Rightarrow> bool" where
  "is_ws c = (c = CHR 0x09 \<or> c = CHR 0x0A \<or> c = CHR 0x0B \<or> c = CHR 0x0C \<or> c = CHR 0x0D
      \<or> c = CHR 0x20 \<or> c = CHR 0xA0)"

text \<open>The value of a character as a digit (\<open>0-9\<close>, \<open>a-z\<close>, \<open>A-Z\<close>); 36 for any other.\<close>

definition digit_val :: "char \<Rightarrow> nat" where
  "digit_val c =
     (let n = (of_char c :: nat) in
      if 48 \<le> n \<and> n \<le> 57 then n - 48
      else if 97 \<le> n \<and> n \<le> 122 then n - 87
      else if 65 \<le> n \<and> n \<le> 90 then n - 55
      else 36)"

definition is_digit :: "nat \<Rightarrow> char \<Rightarrow> bool" where
  "is_digit R c = (digit_val c < R)"

definition digits_value :: "nat \<Rightarrow> string \<Rightarrow> nat" where
  "digits_value R Z = fold (\<lambda>c a. a * R + digit_val c) Z 0"

text \<open>
  \<^verbatim>\<open>parseInt(string)\<close> with no radix, by the steps of ECMAScript. After white space and
  sign: a prefix \<^verbatim>\<open>0x\<close> or \<^verbatim>\<open>0X\<close> selects radix 16 (radix 10 otherwise), the longest run
  of digits of the radix is the numeral, and an empty run gives \<^verbatim>\<open>NaN\<close>. The value of
  the numeral is rounded to a double (for a decimal numeral of more than 20 significant
  digits ECMAScript also allows an approximation; the exactly rounded value is taken).
\<close>

definition parse_numeral :: "int \<Rightarrow> string \<Rightarrow> number" where
  "parse_numeral sign S =
     (let hex = (case S of a # b # _ \<Rightarrow> a = CHR ''0'' \<and> (b = CHR ''x'' \<or> b = CHR ''X'')
                 | _ \<Rightarrow> False);
          R = (if hex then 16 else 10);
          S2 = (if hex then drop 2 S else S);
          Z = takeWhile (is_digit R) S2
      in if Z = [] then NaN else signed_number sign (digits_value R Z))"

text \<open>Leading white space is dropped and one sign is read.\<close>

definition parseInt :: "string \<Rightarrow> number" where
  "parseInt inputString =
     (case dropWhile is_ws inputString of
        [] \<Rightarrow> parse_numeral 1 []
      | c # S \<Rightarrow>
          if c = CHR ''-'' then parse_numeral (- 1) S
          else if c = CHR ''+'' then parse_numeral 1 S
          else parse_numeral 1 (c # S))"

text \<open>
  \<^verbatim>\<open>task.id === parseInt(id)\<close>: \<^verbatim>\<open>NaN\<close> and the infinities are equal to no id. The id
  argument is the
  string that \<^verbatim>\<open>parseInt\<close> works on: every caller in \<^verbatim>\<open>app.js\<close> passes a string read from
  the page, and \<^verbatim>\<open>parseInt\<close> turns a number into its decimal numeral first.
\<close>

definition id_matches :: "string \<Rightarrow> task \<Rightarrow> bool" where
  "id_matches idarg t = (parseInt idarg = Finite (task_id t))"

text \<open>
  \<^verbatim>\<open>toLowerCase\<close>: the capital letters below 256 are \<open>A\<close> to \<open>Z\<close> and \<open>0xC0\<close> to \<open>0xDE\<close>
  without the multiplication sign \<open>0xD7\<close>; the small letter is 32 code units above.
\<close>

definition toLowerCase :: "string \<Rightarrow> string" where
  "toLowerCase s =
     map (\<lambda>c. let n = (of_char c :: nat) in
               if (65 \<le> n \<and> n \<le> 90) \<or> (192 \<le> n \<and> n \<le> 222 \<and> n \<noteq> 215)
               then char_of (n + 32) else c) s"

text \<open>\<^verbatim>\<open>s.includes(q)\<close>: \<open>q\<close> occurs in \<open>s\<close> at some position.\<close>

fun includes_str :: "string \<Rightarrow> string \<Rightarrow> bool" where
  "includes_str [] q = (q = [])"
| "includes_str (c # cs) q = (if prefix q (c # cs) then True else includes_str cs q)"

definition trim :: "string \<Rightarrow> string" where
  "trim s = rev (dropWhile is_ws (rev (dropWhile is_ws s)))"

subsection \<open>The storage slot\<close>

text \<open>
  A string held by \<^verbatim>\<open>localStorage\<close> under \<^verbatim>\<open>storageKey\<close>, by what the runtime makes of
  it:
  \<^item> \<open>Blank\<close>: the empty string, which is falsy and which \<^verbatim>\<open>JSON.parse\<close> rejects;
  \<^item> \<open>Malformed\<close>: a non-empty text that \<^verbatim>\<open>JSON.parse\<close> rejects with a \<^verbatim>\<open>SyntaxError\<close>;
  \<^item> \<open>Json ts\<close>: a JSON text that \<^verbatim>\<open>JSON.parse\<close> reads as the array of Task objects \<open>ts\<close>
    (the ids in \<open>ts\<close> are the doubles that the parser returns).
  The slot is \<open>None\<close> when \<^verbatim>\<open>getItem\<close> returns \<^verbatim>\<open>null\<close>.
  \<^verbatim>\<open>setItem(key, JSON.stringify(ts))\<close> leaves \<open>Some (Json ts)\<close>: a Task object of this
  model survives serialisation unchanged, and the write is taken to succeed.
\<close>

datatype item = Blank | Malformed | Json "task list"

type_synonym slot = "item option"

text \<open>The truth value of \<^verbatim>\<open>localStorage.getItem(this.storageKey)\<close>.\<close>

fun truthy :: "slot \<Rightarrow> bool" where
  "truthy None = False"
| "truthy (Some Blank) = False"
| "truthy (Some Malformed) = True"
| "truthy (Some (Json ts)) = True"

fun JSON_parse :: "item \<Rightarrow> error + task list" where
  "JSON_parse Blank = Inl SyntaxError"
| "JSON_parse Malformed = Inl SyntaxError"
| "JSON_parse (Json ts) = Inr ts"

subsection \<open>TaskDB\<close>

definition sampleTasks :: "task list" where
  "sampleTasks =
    [\<lparr>task_id = 1, props =
        [(''title'', ''Complete MEAN Stack Project''),
         (''description'', ''Build a full-stack task management application using MongoDB, Express.js, Angular, and Node.js''),
         (''priority'', ''High''),
         (''dueDate'', ''2025-09-15''),
         (''status'', ''Pending''),
         (''createdAt'', ''2025-08-20T10:00:00Z''),
         (''updatedAt'', ''2025-08-20T10:00:00Z'')]\<rparr>,
     \<lparr>task_id = 2, props =
        [(''title'', ''Study Angular Framework''),
         (''description'', ''Learn Angular concepts including components, services, routing, and data binding''),
         (''priority'', ''Medium''),
         (''dueDate'', ''2025-08-30''),
         (''status'', ''Completed''),
         (''createdAt'', ''2025-08-18T14:30:00Z''),
         (''updatedAt'', ''2025-08-21T09:15:00Z'')]\<rparr>,
     \<lparr>task_id = 3, props =
        [(''title'', ''Setup Development Environment''),
         (''description'', ''Install Node.js, MongoDB, Angular CLI, and VS Code with necessary extensions''),
         (''priority'', ''High''),
         (''dueDate'', ''2025-08-22''),
         (''status'', ''Completed''),
         (''createdAt'', ''2025-08-17T11:20:00Z''),
         (''updatedAt'', ''2025-08-19T16:45:00Z'')]\<rparr>,
     \<lparr>task_id = 4, props =
        [(''title'', ''Design Database Schema''),
         (''description'', ''Plan the MongoDB collection structure for tasks, users, and categories''),
         (''priority'', ''Medium''),
         (''dueDate'', ''2025-09-01''),
         (''status'', ''Pending''),
         (''createdAt'', ''2025-08-19T13:10:00Z''),
         (''updatedAt'', ''2025-08-19T13:10:00Z'')]\<rparr>,
     \<lparr>task_id = 5, props =
        [(''title'', ''Create REST API Endpoints''),
         (''description'', ''Develop Express.js routes for CRUD operations on tasks''),
         (''priority'', ''High''),
         (''dueDate'', ''2025-09-05''),
         (''status'', ''Pending''),
         (''createdAt'', ''2025-08-20T08:45:00Z''),
         (''updatedAt'', ''2025-08-20T08:45:00Z'')]\<rparr>]"

definition initializeDatabase :: "slot \<Rightarrow> slot" where
  "initializeDatabase st = (if \<not> truthy st then Some (Json sampleTasks) else st)"

definition getAllTasks :: "slot \<Rightarrow> error + task list" where
  "getAllTasks st =
     (case st of
        None \<Rightarrow> Inr []
      | Some tasks \<Rightarrow> if truthy (Some tasks) then JSON_parse tasks else Inr [])"

definition getTaskById :: "string \<Rightarrow> slot \<Rightarrow> error + task option" where
  "getTaskById idarg st =
     (case getAllTasks st of
        Inl e \<Rightarrow> Inl e
      | Inr tasks \<Rightarrow> Inr (find (id_matches idarg) tasks))"

text \<open>\<^verbatim>\<open>Math.max(...ids)\<close> of at least one number; the maximum of doubles is one of them.\<close>

fun Math_max :: "int \<Rightarrow> int list \<Rightarrow> int" where
  "Math_max x [] = x"
| "Math_max x (y # ys) = Math_max (max x y) ys"

definition generateId :: "slot \<Rightarrow> error + int" where
  "generateId st =
     (case getAllTasks st of
        Inl e \<Rightarrow> Inl e
      | Inr tasks \<Rightarrow>
          Inr (case map task_id tasks of
                 [] \<Rightarrow> 1
               | i # ids \<Rightarrow> round_double (Math_max i ids + 1)))"

text \<open>
  The object literal of \<^verbatim>\<open>createTask\<close>: the generated id \<open>g\<close> first, the argument
  spread over it, then the two readings of the clock, \<open>c1\<close> for \<^verbatim>\<open>createdAt\<close> and \<open>c2\<close>
  for \<^verbatim>\<open>updatedAt\<close>.
\<close>

definition created :: "string \<Rightarrow> string \<Rightarrow> int \<Rightarrow> fields \<Rightarrow> task" where
  "created c1 c2 g taskData =
     \<lparr>task_id = spread_id g (given_id taskData),
      props = set_prop ''updatedAt'' c2
                (set_prop ''createdAt'' c1 (spread [] (given_props taskData)))\<rparr>"

definition createTask :: "string \<Rightarrow> string \<Rightarrow> fields \<Rightarrow> slot \<Rightarrow> error + (task \<times> slot)" where
  "createTask c1 c2 taskData st =
     (case getAllTasks st of
        Inl e \<Rightarrow> Inl e
      | Inr tasks \<Rightarrow>
          (case generateId st of
             Inl e \<Rightarrow> Inl e
           | Inr g \<Rightarrow>
               let tasks' = tasks @ [created c1 c2 g taskData]
               in Inr (created c1 c2 g taskData, Some (Json tasks'))))"

text \<open>\<^verbatim>\<open>findIndex\<close>: the first position where the predicate holds; \<open>None\<close> is \<open>-1\<close>.\<close>

fun findIndex :: "('a \<Rightarrow> bool) \<Rightarrow> 'a list \<Rightarrow> nat option" where
  "findIndex P [] = None"
| "findIndex P (x # xs) =
     (if P x then Some 0 else (case findIndex P xs of None \<Rightarrow> None | Some i \<Rightarrow> Some (Suc i)))"

text \<open>The object literal of \<^verbatim>\<open>updateTask\<close>: the task, the update spread over it, and the
  clock reading \<open>c\<close> as \<^verbatim>\<open>updatedAt\<close>.\<close>

definition merged :: "string \<Rightarrow> task \<Rightarrow> fields \<Rightarrow> task" where
  "merged c t updateData =
     \<lparr>task_id = spread_id (task_id t) (given_id updateData),
      props = set_prop ''updatedAt'' c (spread (props t) (given_props updateData))\<rparr>"

definition updateTask :: "string \<Rightarrow> string \<Rightarrow> fields \<Rightarrow> slot \<Rightarrow> error + (task option \<times> slot)" where
  "updateTask c idarg updateData st =
     (case getAllTasks st of
        Inl e \<Rightarrow> Inl e
      | Inr tasks \<Rightarrow>
          (case findIndex (id_matches idarg) tasks of
             Some taskIndex \<Rightarrow>
               let tasks' = tasks[taskIndex := merged c (tasks ! taskIndex) updateData]
               in Inr (Some (tasks' ! taskIndex), Some (Json tasks'))
           | None \<Rightarrow> Inr (None, st)))"

definition deleteTask :: "string \<Rightarrow> slot \<Rightarrow> error + (bool \<times> slot)" where
  "deleteTask idarg st =
     (case getAllTasks st of
        Inl e \<Rightarrow> Inl e
      | Inr tasks \<Rightarrow>
          let filteredTasks = filter (\<lambda>task. \<not> id_matches idarg task) tasks
          in Inr (True, Some (Json filteredTasks)))"

subsection \<open>TaskAPI\<close>

text \<open>
  The envelope that every method of \<^verbatim>\<open>TaskAPI\<close> resolves to. An \<^verbatim>\<open>async\<close> method is its
  outcome: \<open>Inr\<close> of the envelope when the promise resolves, \<open>Inl\<close> of the error when it
  rejects, beside the storage slot it leaves. The artificial delay has no part in the
  outcome.
\<close>

datatype payload = No_data | One task | Many "task list"

record envelope =
  success :: bool
  data :: payload
  message :: string

definition api_getTasks :: "slot \<Rightarrow> (error + envelope) \<times> slot" where
  "api_getTasks st =
     (case getAllTasks st of
        Inl e \<Rightarrow> (Inl e, st)
      | Inr tasks \<Rightarrow>
          (Inr \<lparr>success = True, data = Many tasks,
                message = ''Tasks retrieved successfully''\<rparr>, st))"

definition api_getTask :: "string \<Rightarrow> slot \<Rightarrow> (error + envelope) \<times> slot" where
  "api_getTask idarg st =
     (case getTaskById idarg st of
        Inl e \<Rightarrow> (Inl e, st)
      | Inr (Some task) \<Rightarrow>
          (Inr \<lparr>success = True, data = One task,
                message = ''Task retrieved successfully''\<rparr>, st)
      | Inr None \<Rightarrow>
          (Inr \<lparr>success = False, data = No_data, message = ''Task not found''\<rparr>, st))"

definition api_createTask ::
    "string \<Rightarrow> string \<Rightarrow> fields \<Rightarrow> slot \<Rightarrow> (error + envelope) \<times> slot" where
  "api_createTask c1 c2 taskData st =
     (case createTask c1 c2 taskData st of
        Inr (newTask, st') \<Rightarrow>
          (Inr \<lparr>success = True, data = One newTask,
                message = ''Task created successfully''\<rparr>, st')
      | Inl e \<Rightarrow>
          (Inr \<lparr>success = False, data = No_data, message = ''Failed to create task''\<rparr>, st))"

definition api_updateTask ::
    "string \<Rightarrow> string \<Rightarrow> fields \<Rightarrow> slot \<Rightarrow> (error + envelope) \<times> slot" where
  "api_updateTask c idarg updateData st =
     (case updateTask c idarg updateData st of
        Inr (Some updatedTask, st') \<Rightarrow>
          (Inr \<lparr>success = True, data = One updatedTask,
                message = ''Task updated successfully''\<rparr>, st')
      | Inr (None, st') \<Rightarrow>
          (Inr \<lparr>success = False, data = No_data, message = ''Task not found''\<rparr>, st')
      | Inl e \<Rightarrow>
          (Inr \<lparr>success = False, data = No_data, message = ''Failed to update task''\<rparr>, st))"

definition api_deleteTask :: "string \<Rightarrow> slot \<Rightarrow> (error + envelope) \<times> slot" where
  "api_deleteTask idarg st =
     (case deleteTask idarg st of
        Inr (ok, st') \<Rightarrow>
          (Inr \<lparr>success = True, data = No_data,
                message = ''Task deleted successfully''\<rparr>, st')
      | Inl e \<Rightarrow>
          (Inr \<lparr>success = False, data = No_data, message = ''Failed to delete task''\<rparr>, st))"

subsection \<open>AppComponent: the filtered view\<close>

text \<open>\<^verbatim>\<open>getFilteredTasksByStatus\<close>, from \<^verbatim>\<open>this.currentFilter\<close> and \<^verbatim>\<open>this.tasks\<close>.\<close>

definition getFilteredTasksByStatus :: "string \<Rightarrow> task list \<Rightarrow> task list" where
  "getFilteredTasksByStatus currentFilter tasks =
     (if currentFilter = ''pending''
        then filter (\<lambda>task. get_prop ''status'' task = Some ''Pending'') tasks
      else if currentFilter = ''completed''
        then filter (\<lambda>task. get_prop ''status'' task = Some ''Completed'') tasks
      else tasks)"

text \<open>
  The predicate of \<^verbatim>\<open>searchTasks\<close>. Calling \<^verbatim>\<open>toLowerCase\<close> on a property that the task
  does not have throws a \<^verbatim>\<open>TypeError\<close>; \<^verbatim>\<open>||\<close> reads the description only when the
  title does not match.
\<close>

definition matches_query :: "string \<Rightarrow> task \<Rightarrow> error + bool" where
  "matches_query query task =
     (case get_prop ''title'' task of
        None \<Rightarrow> Inl TypeError
      | Some title \<Rightarrow>
          if includes_str (toLowerCase title) (toLowerCase query) then Inr True
          else (case get_prop ''description'' task of
                  None \<Rightarrow> Inl TypeError
                | Some description \<Rightarrow>
                    Inr (includes_str (toLowerCase description) (toLowerCase query))))"

text \<open>\<^verbatim>\<open>Array.prototype.filter\<close> with a predicate that may throw.\<close>

fun filter_throwing :: "('a \<Rightarrow> error + bool) \<Rightarrow> 'a list \<Rightarrow> error + 'a list" where
  "filter_throwing P [] = Inr []"
| "filter_throwing P (x # xs) =
     (case P x of
        Inl e \<Rightarrow> Inl e
      | Inr b \<Rightarrow>
          (case filter_throwing P xs of
             Inl e \<Rightarrow> Inl e
           | Inr ys \<Rightarrow> Inr (if b then x # ys else ys)))"

text \<open>\<^verbatim>\<open>searchTasks(query)\<close>: the value it leaves in \<^verbatim>\<open>this.filteredTasks\<close>.\<close>

definition searchTasks :: "string \<Rightarrow> string \<Rightarrow> task list \<Rightarrow> error + task list" where
  "searchTasks currentFilter query tasks =
     (if trim query = [] then Inr (getFilteredTasksByStatus currentFilter tasks)
      else filter_throwing (matches_query query) (getFilteredTasksByStatus currentFilter tasks))"

subsection \<open>The words of the specification\<close>

text \<open>
  "The query is a case-insensitive substring of \<open>s\<close>": some contiguous part of \<open>s\<close> is
  the query up to the case of its letters.
\<close>

definition ci_substring :: "string \<Rightarrow> string \<Rightarrow> bool" where
  "ci_substring q s = (\<exists>u v w. s = u @ v @ w \<and> toLowerCase v = toLowerCase q)"

text \<open>The status that a value of the active filter selects.\<close>

definition status_selected :: "string \<Rightarrow> task \<Rightarrow> bool" where
  "status_selected currentFilter t =
     (if currentFilter = ''pending'' then get_prop ''status'' t = Some ''Pending''
      else if currentFilter = ''completed'' then get_prop ''status'' t = Some ''Completed''
      else True)"

text \<open>
  "A task is shown": the active filter selects it, and the query is a case-insensitive
  substring of its title or of its description.
\<close>

definition shown_for :: "string \<Rightarrow> string \<Rightarrow> task \<Rightarrow> bool" where
  "shown_for f q t =
     (status_selected f t
      \<and> ((\<exists>s. get_prop ''title'' t = Some s \<and> ci_substring q s)
         \<or> (\<exists>s. get_prop ''description'' t = Some s \<and> ci_substring q s)))"

text \<open>The decimal numeral of a natural number.\<close>

fun decimal :: "nat \<Rightarrow> string" where
  "decimal n =
     (if n < 10 then [char_of (48 + n)] else decimal (n div 10) @ [char_of (48 + n mod 10)])"

declare decimal.simps [simp del]

section \<open>Properties\<close>

lemmas parseInt_eval =
  parseInt_def parse_numeral_def is_ws_def is_digit_def digit_val_def digits_value_def
  signed_number_def round_double_def

lemmas char_eval = char_of_eq_iff take_bit_eq_mod

subsection \<open>Reading the slot\<close>

lemma getAllTasks_simps:
  "getAllTasks None = Inr []"
  "getAllTasks (Some Blank) = Inr []"
  "getAllTasks (Some Malformed) = Inl SyntaxError"
  "getAllTasks (Some (Json ts)) = Inr ts"
  by (simp_all add: getAllTasks_def)

lemma getAllTasks_Inl_iff:
  "getAllTasks st = Inl e \<longleftrightarrow> st = Some Malformed \<and> e = SyntaxError"
proof (cases st)
  case None
  then show ?thesis by (simp add: getAllTasks_simps)
next
  case (Some x)
  then show ?thesis by (cases x) (auto simp: getAllTasks_simps)
qed

lemma getAllTasks_Inr_cases:
  assumes "getAllTasks st = Inr tasks"
  shows "(st = None \<and> tasks = []) \<or> (st = Some Blank \<and> tasks = []) \<or> st = Some (Json tasks)"
proof (cases st)
  case None
  with assms show ?thesis by (simp add: getAllTasks_simps)
next
  case (Some x)
  with assms show ?thesis by (cases x) (auto simp: getAllTasks_simps)
qed

subsection \<open>Seeding\<close>

text \<open>
  Claim C4. On a slot that holds nothing (no item, or the empty string),
  \<open>initializeDatabase\<close> followed by \<open>getAllTasks\<close> returns the five sample tasks, with ids
  1 to 5 and the five literal titles. On a slot that holds a non-empty text,
  \<open>initializeDatabase\<close> changes nothing; in particular a second call changes nothing.
\<close>

theorem initializeDatabase_seeds_once:
  "getAllTasks (initializeDatabase None) = Inr sampleTasks
   \<and> getAllTasks (initializeDatabase (Some Blank)) = Inr sampleTasks
   \<and> length sampleTasks = 5
   \<and> map task_id sampleTasks = [1, 2, 3, 4, 5]
   \<and> map (get_prop ''title'') sampleTasks =
       [Some ''Complete MEAN Stack Project'', Some ''Study Angular Framework'',
        Some ''Setup Development Environment'', Some ''Design Database Schema'',
        Some ''Create REST API Endpoints'']
   \<and> (truthy st \<longrightarrow> initializeDatabase st = st)
   \<and> initializeDatabase (initializeDatabase st) = initializeDatabase st"
proof -
  have a: "getAllTasks (initializeDatabase None) = Inr sampleTasks"
    "getAllTasks (initializeDatabase (Some Blank)) = Inr sampleTasks"
    by (simp_all add: initializeDatabase_def getAllTasks_simps)
  have b: "length sampleTasks = 5" "map task_id sampleTasks = [1, 2, 3, 4, 5]"
    by (simp_all add: sampleTasks_def)
  have c: "map (get_prop ''title'') sampleTasks =
       [Some ''Complete MEAN Stack Project'', Some ''Study Angular Framework'',
        Some ''Setup Development Environment'', Some ''Design Database Schema'',
        Some ''Create REST API Endpoints'']"
    by (simp add: sampleTasks_def get_prop_def)
  have d: "truthy st \<longrightarrow> initializeDatabase st = st"
    by (simp add: initializeDatabase_def)
  have e: "initializeDatabase (initializeDatabase st) = initializeDatabase st"
    by (simp add: initializeDatabase_def)
  from a b c d e show ?thesis by blast
qed

text \<open>The slot left by the first call is non-empty, and the second call keeps it.\<close>

theorem initializeDatabase_seeds_once_witness:
  "truthy (initializeDatabase None)
   \<and> initializeDatabase (initializeDatabase None) = initializeDatabase None
   \<and> getAllTasks (initializeDatabase (initializeDatabase None)) = Inr sampleTasks
   \<and> length sampleTasks = 5"
proof -
  have t: "truthy (initializeDatabase None)"
    by (simp add: initializeDatabase_def)
  from initializeDatabase_seeds_once [of "initializeDatabase None"] t show ?thesis
    by simp
qed

subsection \<open>Reading the collection\<close>

text \<open>
  Claim C3, as stated, fails: on a text that does not deserialize, \<open>getAllTasks\<close> raises
  the \<^verbatim>\<open>SyntaxError\<close> of \<^verbatim>\<open>JSON.parse\<close>; it does not return the empty sequence.
\<close>

theorem getAllTasks_malformed_throws:
  "getAllTasks (Some Malformed) = Inl SyntaxError \<and> getAllTasks (Some Malformed) \<noteq> Inr []"
  by (simp add: getAllTasks_simps)

text \<open>
  Claim C3, amended. \<open>getAllTasks\<close> returns the empty sequence when nothing is persisted
  under the key or the persisted text is empty, and the full persisted collection when
  the text deserializes; it raises exactly when the persisted text does not deserialize,
  and then the error is the \<^verbatim>\<open>SyntaxError\<close> of the parser.
\<close>

theorem getAllTasks_outcomes:
  "getAllTasks None = Inr []
   \<and> getAllTasks (Some Blank) = Inr []
   \<and> getAllTasks (Some (Json ts)) = Inr ts
   \<and> (getAllTasks st = Inl e \<longleftrightarrow> st = Some Malformed \<and> e = SyntaxError)"
  using getAllTasks_Inl_iff [of st e] by (simp add: getAllTasks_simps)

subsection \<open>Lists and objects\<close>

lemma map_of_set_prop: "map_of (set_prop k v ps) = (map_of ps)(k \<mapsto> v)"
  by (induction ps) (auto simp: fun_eq_iff)

lemma findIndex_None_iff: "findIndex P xs = None \<longleftrightarrow> \<not> list_ex P xs"
  by (induction xs) (auto split: option.splits)

lemma findIndex_Some:
  "findIndex P xs = Some i \<Longrightarrow> i < length xs \<and> P (xs ! i) \<and> find P xs = Some (xs ! i)"
proof (induction xs arbitrary: i)
  case Nil
  then show ?case by simp
next
  case (Cons x xs)
  show ?case
  proof (cases "P x")
    case True
    with Cons.prems show ?thesis by simp
  next
    case False
    with Cons.prems obtain j where j: "findIndex P xs = Some j" "i = Suc j"
      by (auto split: option.splits)
    from Cons.IH [OF j(1)] False j(2) show ?thesis by simp
  qed
qed

lemma find_None_list_ex: "find P xs = None \<longleftrightarrow> \<not> list_ex P xs"
  by (induction xs) auto

lemma Math_max_Max: "Math_max x ys = Max (insert x (set ys))"
proof (induction ys arbitrary: x)
  case Nil
  then show ?case by simp
next
  case (Cons y ys)
  have "Max (insert (max x y) (set ys)) = Max (insert x (insert y (set ys)))"
  proof (cases "set ys = {}")
    case True
    then show ?thesis by (simp add: max.commute)
  next
    case False
    then show ?thesis by (simp add: max.assoc max.commute max.left_commute)
  qed
  with Cons show ?case by simp
qed

subsection \<open>Rounding to a double\<close>

lemma bit_length_range:
  assumes "2 ^ k \<le> n" and "n < 2 ^ Suc k"
  shows "bit_length n = Suc k"
  using assms
proof (induction k arbitrary: n)
  case 0
  then have "n = Suc 0" by simp
  then show ?case by (simp add: bit_length.simps [of "Suc 0"] bit_length.simps [of 0])
next
  case (Suc k)
  then have "2 ^ k \<le> n div 2" "n div 2 < 2 ^ Suc k" by auto
  with Suc.IH have "bit_length (n div 2) = Suc k" by blast
  moreover from Suc.prems have "n \<noteq> 0" by auto
  ultimately show ?case by (simp add: bit_length.simps [of n])
qed

lemma round_double_small:
  assumes "\<bar>n\<bar> < 2 ^ 53"
  shows "round_double n = n"
proof -
  from assms have "nat \<bar>n\<bar> < 2 ^ 53" by (simp add: nat_less_iff)
  then show ?thesis by (simp add: round_double_def Let_def)
qed

text \<open>Every integer up to \<open>2^53\<close> in magnitude is a double.\<close>

lemma round_double_exact:
  assumes "\<bar>n\<bar> \<le> 2 ^ 53"
  shows "round_double n = n"
proof (cases "\<bar>n\<bar> < 2 ^ 53")
  case True
  then show ?thesis by (rule round_double_small)
next
  case False
  with assms have n: "n = 2 ^ 53 \<or> n = - (2 ^ 53)" by auto
  have b: "bit_length 9007199254740992 = 54"
    using bit_length_range [of 53 9007199254740992] by simp
  from n show ?thesis by (auto simp: round_double_def b)
qed

text \<open>Above \<open>2^53\<close> the odd integers are not doubles: \<open>2^53 + 1\<close> is a tie and goes to
  \<open>2^53\<close>.\<close>

lemma round_double_tie: "round_double 9007199254740993 = 9007199254740992"
proof -
  have "bit_length 9007199254740993 = 54"
    using bit_length_range [of 53 9007199254740993] by simp
  then show ?thesis by (simp add: round_double_def)
qed

lemma signed_number_small:
  assumes "n < 2 ^ 53"
  shows "signed_number s n = Finite (s * int n)"
proof -
  from assms have "int n < 2 ^ 53" by (simp add: of_nat_less_numeral_power_cancel_iff)
  moreover have "(2::int) ^ 53 < 2 ^ 1024" by simp
  ultimately have "\<bar>int n\<bar> < 2 ^ 53" "\<not> 2 ^ 1024 \<le> int n" by simp_all
  then show ?thesis by (simp add: signed_number_def round_double_small)
qed

subsection \<open>Creating a task\<close>

lemma generateId_value:
  assumes "getAllTasks st = Inr tasks"
  shows "generateId st =
    Inr (if tasks = [] then 1 else round_double (Max (task_id ` set tasks) + 1))"
proof (cases tasks)
  case Nil
  with assms show ?thesis by (simp add: generateId_def)
next
  case (Cons t ts)
  with assms show ?thesis by (simp add: generateId_def Math_max_Max)
qed

text \<open>On safe integers the generated id is one more than the maximum.\<close>

lemma generateId_safe:
  assumes "getAllTasks st = Inr tasks" and "list_all (\<lambda>t. \<bar>task_id t\<bar> < 2 ^ 53) tasks"
  shows "generateId st = Inr (if tasks = [] then 1 else Max (task_id ` set tasks) + 1)"
proof (cases "tasks = []")
  case True
  with generateId_value [OF assms(1)] show ?thesis by simp
next
  case False
  then have "Max (task_id ` set tasks) \<in> task_id ` set tasks"
    by (intro Max_in) simp_all
  with assms(2) have "\<bar>Max (task_id ` set tasks)\<bar> < 2 ^ 53"
    by (auto simp: list_all_iff)
  then have "\<bar>Max (task_id ` set tasks) + 1\<bar> \<le> 2 ^ 53" by simp
  then have "round_double (Max (task_id ` set tasks) + 1) = Max (task_id ` set tasks) + 1"
    by (rule round_double_exact)
  with generateId_value [OF assms(1)] False show ?thesis by simp
qed

lemma createTask_value:
  assumes "getAllTasks st = Inr tasks" and "generateId st = Inr g"
  shows "createTask c1 c2 taskData st =
    Inr (created c1 c2 g taskData, Some (Json (tasks @ [created c1 c2 g taskData])))"
  using assms unfolding createTask_def Let_def by simp


lemma created_id:
  "task_id (created c1 c2 g taskData) = (case given_id taskData of None \<Rightarrow> g | Some i \<Rightarrow> i)"
  by (simp add: created_def spread_id_def)

lemma carries_id_None:
  assumes "\<not> carries_id taskData"
  shows "given_id taskData = None"
  using assms by (simp add: carries_id_def split: option.splits)

text \<open>
  Claim C5, as stated, fails, in two ways. The argument is spread after the generated id,
  so an \<^verbatim>\<open>id\<close> in the argument is the id of the new task: on the empty collection the new
  task gets id 7, not 1, and on a collection whose maximum id is 5 it gets id 2, not 6.
  And \<^verbatim>\<open>+ 1\<close> is the addition of doubles: on a collection whose maximum id is \<open>2^53\<close> the
  new task gets id \<open>2^53\<close> again.
\<close>

theorem createTask_id_from_fields:
  "createTask ''2025-09-01T08:00:00.000Z'' ''2025-09-01T08:00:00.000Z''
      \<lparr>given_id = Some 7, given_props = [(''title'', ''Write report'')]\<rparr> None
    = Inr (\<lparr>task_id = 7, props = [(''title'', ''Write report''),
              (''createdAt'', ''2025-09-01T08:00:00.000Z''),
              (''updatedAt'', ''2025-09-01T08:00:00.000Z'')]\<rparr>,
           Some (Json [\<lparr>task_id = 7, props = [(''title'', ''Write report''),
              (''createdAt'', ''2025-09-01T08:00:00.000Z''),
              (''updatedAt'', ''2025-09-01T08:00:00.000Z'')]\<rparr>]))
   \<and> (7::int) \<noteq> 1
   \<and> createTask ''2025-09-01T08:00:00.000Z'' ''2025-09-01T08:00:00.000Z''
      \<lparr>given_id = Some 2, given_props = [(''title'', ''Write report'')]\<rparr>
      (Some (Json [\<lparr>task_id = 5, props = [(''title'', ''Create REST API Endpoints'')]\<rparr>]))
    = Inr (\<lparr>task_id = 2, props = [(''title'', ''Write report''),
              (''createdAt'', ''2025-09-01T08:00:00.000Z''),
              (''updatedAt'', ''2025-09-01T08:00:00.000Z'')]\<rparr>,
           Some (Json [\<lparr>task_id = 5, props = [(''title'', ''Create REST API Endpoints'')]\<rparr>,
              \<lparr>task_id = 2, props = [(''title'', ''Write report''),
              (''createdAt'', ''2025-09-01T08:00:00.000Z''),
              (''updatedAt'', ''2025-09-01T08:00:00.000Z'')]\<rparr>]))
   \<and> (2::int) \<noteq> 5 + 1
   \<and> createTask ''2025-09-01T08:00:00.000Z'' ''2025-09-01T08:00:00.000Z''
      \<lparr>given_id = None, given_props = [(''title'', ''Write report'')]\<rparr>
      (Some (Json [\<lparr>task_id = 9007199254740992, props = [(''title'', ''Big'')]\<rparr>]))
    = Inr (\<lparr>task_id = 9007199254740992, props = [(''title'', ''Write report''),
              (''createdAt'', ''2025-09-01T08:00:00.000Z''),
              (''updatedAt'', ''2025-09-01T08:00:00.000Z'')]\<rparr>,
           Some (Json [\<lparr>task_id = 9007199254740992, props = [(''title'', ''Big'')]\<rparr>,
              \<lparr>task_id = 9007199254740992, props = [(''title'', ''Write report''),
              (''createdAt'', ''2025-09-01T08:00:00.000Z''),
              (''updatedAt'', ''2025-09-01T08:00:00.000Z'')]\<rparr>]))
   \<and> (9007199254740992::int) \<noteq> 9007199254740992 + 1"
proof -
  have s: "round_double 6 = 6" "round_double (5 + 1) = 6"
    by (simp_all add: round_double_def)
  show ?thesis
    by (simp add: createTask_def generateId_def getAllTasks_simps created_def spread_id_def
        s round_double_tie)
qed

text \<open>
  Claim C5, amended. When the argument carries no \<^verbatim>\<open>id\<close> and the ids of the collection
  are safe integers (below \<open>2^53\<close> in magnitude), \<open>createTask\<close> on a readable slot appends
  and returns a new task whose id is 1 on the empty collection and one more than the
  maximum id otherwise.
\<close>

theorem createTask_next_id:
  assumes "getAllTasks st = Inr tasks"
    and "\<not> carries_id taskData"
    and "list_all (\<lambda>t. \<bar>task_id t\<bar> < 2 ^ 53) tasks"
  shows "\<exists>t. createTask c1 c2 taskData st = Inr (t, Some (Json (tasks @ [t])))
           \<and> task_id t = (if tasks = [] then 1 else Max (task_id ` set tasks) + 1)"
proof -
  let ?g = "if tasks = [] then 1 else Max (task_id ` set tasks) + 1"
  have g: "generateId st = Inr ?g"
    by (rule generateId_safe [OF assms(1) assms(3)])
  have "task_id (created c1 c2 ?g taskData) = ?g"
    using carries_id_None [OF assms(2)] by (simp add: created_id)
  with createTask_value [OF assms(1) g] show ?thesis by blast
qed

text \<open>On the seeded collection, whose maximum id is 5, the new task gets id 6.\<close>

theorem createTask_next_id_witness:
  "\<exists>t. createTask ''2025-09-01T08:00:00.000Z'' ''2025-09-01T08:00:00.001Z''
          \<lparr>given_id = None, given_props = [(''title'', ''Write report'')]\<rparr>
          (initializeDatabase None)
        = Inr (t, Some (Json (sampleTasks @ [t]))) \<and> task_id t = 6"
proof -
  have r: "getAllTasks (initializeDatabase None) = Inr sampleTasks"
    by (simp add: initializeDatabase_def getAllTasks_simps)
  have f: "\<not> carries_id \<lparr>given_id = None, given_props = [(''title'', ''Write report'')]\<rparr>"
    by (simp add: carries_id_def)
  have b: "list_all (\<lambda>t. \<bar>task_id t\<bar> < 2 ^ 53) sampleTasks"
    by (simp add: sampleTasks_def)
  have m: "(if sampleTasks = [] then 1 else Max (task_id ` set sampleTasks) + 1) = (6::int)"
    by (simp add: sampleTasks_def)
  from createTask_next_id [OF r f b, of "''2025-09-01T08:00:00.000Z''"
      "''2025-09-01T08:00:00.001Z''"]
  show ?thesis unfolding m .
qed



subsection \<open>Updating and deleting\<close>

lemma getTaskById_value:
  assumes "getAllTasks st = Inr tasks"
  shows "getTaskById idarg st = Inr (find (id_matches idarg) tasks)"
  using assms by (simp add: getTaskById_def)

lemma updateTask_found:
  assumes "getAllTasks st = Inr tasks" and "findIndex (id_matches idarg) tasks = Some i"
  shows "updateTask c idarg updateData st =
    Inr (Some (merged c (tasks ! i) updateData),
         Some (Json (tasks[i := merged c (tasks ! i) updateData])))"
proof -
  from findIndex_Some [OF assms(2)] have "i < length tasks" by simp
  then show ?thesis using assms by (simp add: updateTask_def Let_def)
qed

lemma updateTask_not_found:
  assumes "getAllTasks st = Inr tasks" and "findIndex (id_matches idarg) tasks = None"
  shows "updateTask c idarg updateData st = Inr (None, st)"
  using assms by (simp add: updateTask_def)

lemma deleteTask_value:
  assumes "getAllTasks st = Inr tasks"
  shows "deleteTask idarg st =
    Inr (True, Some (Json (filter (\<lambda>task. \<not> id_matches idarg task) tasks)))"
  using assms by (simp add: deleteTask_def)

text \<open>The first element that satisfies a predicate, by the elements before and after it.\<close>

lemma first_match_split:
  assumes "list_ex P xs"
  shows "\<exists>pre t post. xs = pre @ t # post \<and> \<not> list_ex P pre \<and> P t"
proof -
  from assms have "\<exists>x\<in>set xs. P x" by (simp add: list_ex_iff)
  from split_list_first_prop [OF this]
  obtain pre t post where "xs = pre @ t # post" "P t" "\<forall>y\<in>set pre. \<not> P y"
    by blast
  then show ?thesis by (auto simp: list_ex_iff)
qed

lemma findIndex_first:
  assumes "\<not> list_ex P pre" and "P t"
  shows "findIndex P (pre @ t # post) = Some (length pre)"
  using assms by (induction pre) auto

lemma find_first:
  assumes "\<not> list_ex P pre" and "P t"
  shows "find P (pre @ t # post) = Some t"
  using assms by (induction pre) auto

text \<open>\<open>updateTask\<close> replaces the first task that the id matches, where it stands.\<close>

lemma updateTask_first:
  assumes "getAllTasks st = Inr (pre @ t # post)"
    and "\<not> list_ex (id_matches idarg) pre" and "id_matches idarg t"
  shows "updateTask c idarg updateData st =
    Inr (Some (merged c t updateData), Some (Json (pre @ merged c t updateData # post)))"
proof -
  have "findIndex (id_matches idarg) (pre @ t # post) = Some (length pre)"
    by (rule findIndex_first [OF assms(2,3)])
  from updateTask_found [OF assms(1) this] show ?thesis by simp
qed

lemma getTaskById_first:
  assumes "getAllTasks st = Inr (pre @ t # post)"
    and "\<not> list_ex (id_matches idarg) pre" and "id_matches idarg t"
  shows "getTaskById idarg st = Inr (Some t)"
  using getTaskById_value [OF assms(1)] find_first [OF assms(2,3)] by simp

lemma filter_unmatched:
  assumes "\<not> list_ex P xs"
  shows "filter (\<lambda>x. \<not> P x) xs = xs"
  using assms by (induction xs) auto

lemma distinct_filter_le1:
  assumes "distinct (map f xs)"
  shows "length (filter (\<lambda>x. g = Finite (f x)) xs) \<le> 1"
  using assms
proof (induction xs)
  case Nil
  then show ?case by simp
next
  case (Cons x xs)
  show ?case
  proof (cases "g = Finite (f x)")
    case True
    with Cons.prems have "\<forall>y\<in>set xs. g \<noteq> Finite (f y)" by auto
    then have "filter (\<lambda>y. g = Finite (f y)) xs = []" by (simp add: filter_empty_conv)
    with True show ?thesis by simp
  next
    case False
    with Cons show ?thesis by simp
  qed
qed

lemma list_ex_filter_ge1:
  assumes "list_ex P xs"
  shows "1 \<le> length (filter P xs)"
  using assms by (induction xs) auto

text \<open>
  Claim C6. When the id matches no task of a readable slot, \<open>getTaskById\<close> returns
  \<^verbatim>\<open>undefined\<close> and \<open>updateTask\<close> returns \<^verbatim>\<open>null\<close>, neither raises, and the slot is
  as it was; \<open>deleteTask\<close> returns \<^verbatim>\<open>true\<close> and the collection read back is the same.
\<close>

theorem absent_id_is_not_found:
  assumes "getAllTasks st = Inr tasks" and "\<not> list_ex (id_matches idarg) tasks"
  shows "getTaskById idarg st = Inr None
       \<and> updateTask c idarg updateData st = Inr (None, st)
       \<and> (\<exists>st'. deleteTask idarg st = Inr (True, st') \<and> getAllTasks st' = Inr tasks)"
proof -
  have a: "getTaskById idarg st = Inr None"
    using assms by (simp add: getTaskById_value find_None_list_ex)
  have "findIndex (id_matches idarg) tasks = None"
    using assms(2) by (simp add: findIndex_None_iff)
  then have b: "updateTask c idarg updateData st = Inr (None, st)"
    by (rule updateTask_not_found [OF assms(1)])
  have "deleteTask idarg st = Inr (True, Some (Json tasks))"
    using deleteTask_value [OF assms(1), of idarg] assms(2) by (simp add: filter_unmatched)
  then have c: "\<exists>st'. deleteTask idarg st = Inr (True, st') \<and> getAllTasks st' = Inr tasks"
    by (simp add: getAllTasks_simps)
  from a b c show ?thesis by blast
qed

text \<open>No sample task has id 9.\<close>

theorem absent_id_is_not_found_witness:
  "getTaskById ''9'' (initializeDatabase None) = Inr None
   \<and> updateTask ''2025-09-01T08:00:00.000Z'' ''9''
        \<lparr>given_id = None, given_props = [(''status'', ''Completed'')]\<rparr> (initializeDatabase None)
      = Inr (None, initializeDatabase None)
   \<and> (\<exists>st'. deleteTask ''9'' (initializeDatabase None) = Inr (True, st')
         \<and> getAllTasks st' = Inr sampleTasks)"
proof -
  have r: "getAllTasks (initializeDatabase None) = Inr sampleTasks"
    by (simp add: initializeDatabase_def getAllTasks_simps)
  have p: "parseInt ''9'' = Finite 9"
    by (simp add: parseInt_eval)
  have n: "\<not> list_ex (id_matches ''9'') sampleTasks"
    by (simp add: id_matches_def p sampleTasks_def)
  from absent_id_is_not_found [OF r n] show ?thesis .
qed

text \<open>
  Claim C7. On a readable slot whose collection has distinct ids, one of them the given
  id, the first \<open>deleteTask\<close> leaves a collection that is shorter by exactly one and has no
  task with the id, and a second \<open>deleteTask\<close> with the same id leaves that collection as
  it is.
\<close>

theorem deleteTask_twice:
  assumes "getAllTasks st = Inr tasks"
    and "distinct (map task_id tasks)"
    and "list_ex (id_matches idarg) tasks"
  shows "\<exists>tasks1. deleteTask idarg st = Inr (True, Some (Json tasks1))
           \<and> tasks1 = filter (\<lambda>t. \<not> id_matches idarg t) tasks
           \<and> length tasks1 + 1 = length tasks
           \<and> \<not> list_ex (id_matches idarg) tasks1
           \<and> deleteTask idarg (Some (Json tasks1)) = Inr (True, Some (Json tasks1))"
proof -
  let ?rest = "filter (\<lambda>t. \<not> id_matches idarg t) tasks"
  have a: "deleteTask idarg st = Inr (True, Some (Json ?rest))"
    by (rule deleteTask_value [OF assms(1)])
  have b: "length ?rest + length (filter (id_matches idarg) tasks) = length tasks"
    using sum_length_filter_compl [of "id_matches idarg" tasks] by simp
  have "id_matches idarg = (\<lambda>t. parseInt idarg = Finite (task_id t))"
    by (simp add: fun_eq_iff id_matches_def)
  then have "length (filter (id_matches idarg) tasks) \<le> 1"
    using distinct_filter_le1 [OF assms(2), of "parseInt idarg"] by simp
  moreover have "1 \<le> length (filter (id_matches idarg) tasks)"
    by (rule list_ex_filter_ge1 [OF assms(3)])
  ultimately have c: "length ?rest + 1 = length tasks"
    using b by simp
  have d: "\<not> list_ex (id_matches idarg) ?rest"
    by (simp add: list_ex_iff)
  then have "filter (\<lambda>t. \<not> id_matches idarg t) ?rest = ?rest"
    by (rule filter_unmatched)
  then have e: "deleteTask idarg (Some (Json ?rest)) = Inr (True, Some (Json ?rest))"
    by (simp only: deleteTask_value [OF getAllTasks_simps(4)])
  from a c d e show ?thesis by blast
qed

text \<open>On the seeded collection, deleting id 2 leaves the ids 1, 3, 4 and 5.\<close>

theorem deleteTask_twice_witness:
  "\<exists>tasks1. deleteTask ''2'' (initializeDatabase None) = Inr (True, Some (Json tasks1))
     \<and> map task_id tasks1 = [1, 3, 4, 5]
     \<and> length tasks1 + 1 = length sampleTasks
     \<and> deleteTask ''2'' (Some (Json tasks1)) = Inr (True, Some (Json tasks1))"
proof -
  have r: "getAllTasks (initializeDatabase None) = Inr sampleTasks"
    by (simp add: initializeDatabase_def getAllTasks_simps)
  have p: "parseInt ''2'' = Finite 2"
    by (simp add: parseInt_eval)
  have d: "distinct (map task_id sampleTasks)"
    by (simp add: sampleTasks_def)
  have e: "list_ex (id_matches ''2'') sampleTasks"
    by (simp add: id_matches_def p sampleTasks_def)
  have m: "map task_id (filter (\<lambda>t. \<not> id_matches ''2'' t) sampleTasks) = [1, 3, 4, 5]"
    by (simp add: id_matches_def p sampleTasks_def)
  from deleteTask_twice [OF r d e] m show ?thesis by auto
qed

subsection \<open>Marking a task as completed\<close>

lemma merged_completed_props:
  "get_prop k (merged c t \<lparr>given_id = None, given_props = [(''status'', ''Completed'')]\<rparr>) =
     (if k = ''updatedAt'' then Some c
      else if k = ''status'' then Some ''Completed''
      else get_prop k t)"
  by (simp add: merged_def get_prop_def map_of_set_prop)

lemma merged_completed_id:
  "task_id (merged c t \<lparr>given_id = None, given_props = [(''status'', ''Completed'')]\<rparr>) = task_id t"
  by (simp add: merged_def spread_id_def)

text \<open>
  Claim C1, as stated, fails in its last part: \<^verbatim>\<open>updatedAt\<close> becomes the reading of the
  clock, whatever the previous value was. A task created and completed at the same
  reading of the clock keeps its \<^verbatim>\<open>updatedAt\<close>: the new value is not strictly greater.
\<close>

theorem updateTask_same_instant:
  "createTask ''2025-09-01T08:00:00.000Z'' ''2025-09-01T08:00:00.000Z''
      \<lparr>given_id = None, given_props = [(''title'', ''Write report''), (''status'', ''Pending'')]\<rparr> None
    = Inr (\<lparr>task_id = 1, props = [(''title'', ''Write report''), (''status'', ''Pending''),
              (''createdAt'', ''2025-09-01T08:00:00.000Z''),
              (''updatedAt'', ''2025-09-01T08:00:00.000Z'')]\<rparr>,
           Some (Json [\<lparr>task_id = 1, props = [(''title'', ''Write report''), (''status'', ''Pending''),
              (''createdAt'', ''2025-09-01T08:00:00.000Z''),
              (''updatedAt'', ''2025-09-01T08:00:00.000Z'')]\<rparr>]))
   \<and> updateTask ''2025-09-01T08:00:00.000Z'' ''1''
        \<lparr>given_id = None, given_props = [(''status'', ''Completed'')]\<rparr>
        (Some (Json [\<lparr>task_id = 1, props = [(''title'', ''Write report''), (''status'', ''Pending''),
              (''createdAt'', ''2025-09-01T08:00:00.000Z''),
              (''updatedAt'', ''2025-09-01T08:00:00.000Z'')]\<rparr>]))
    = Inr (Some \<lparr>task_id = 1, props = [(''title'', ''Write report''), (''status'', ''Completed''),
              (''createdAt'', ''2025-09-01T08:00:00.000Z''),
              (''updatedAt'', ''2025-09-01T08:00:00.000Z'')]\<rparr>,
           Some (Json [\<lparr>task_id = 1, props = [(''title'', ''Write report''), (''status'', ''Completed''),
              (''createdAt'', ''2025-09-01T08:00:00.000Z''),
              (''updatedAt'', ''2025-09-01T08:00:00.000Z'')]\<rparr>]))
   \<and> \<not> (''2025-09-01T08:00:00.000Z'' < ''2025-09-01T08:00:00.000Z'')"
proof -
  have p: "parseInt ''1'' = Finite 1"
    by (simp add: parseInt_eval)
  show ?thesis
    by (simp add: createTask_def generateId_def updateTask_def getAllTasks_simps created_def
        merged_def spread_id_def id_matches_def p)
qed

text \<open>
  Claim C1, amended. On a readable slot whose collection has a task that the id matches,
  let \<open>t\<close> be the first such task, \<open>pre\<close> the tasks before it and \<open>post\<close> the tasks after
  it. \<open>updateTask\<close> with \<^verbatim>\<open>{status: "Completed"}\<close> returns a task \<open>t'\<close> and leaves the
  collection \<open>pre\<close>, \<open>t'\<close>, \<open>post\<close>: every other task is as before and in its place. \<open>t'\<close>
  has the id of \<open>t\<close>, \<^verbatim>\<open>status\<close> \<^verbatim>\<open>"Completed"\<close>, the reading of the clock as \<^verbatim>\<open>updatedAt\<close>,
  and every other property (title, description, priority, dueDate and createdAt among
  them) as in \<open>t\<close>.
\<close>

theorem updateTask_completed_frame:
  assumes "getAllTasks st = Inr tasks" and "list_ex (id_matches idarg) tasks"
  shows "(\<exists>pre t post. tasks = pre @ t # post \<and> \<not> list_ex (id_matches idarg) pre
            \<and> id_matches idarg t)
       \<and> (\<forall>pre t post.
            tasks = pre @ t # post \<and> \<not> list_ex (id_matches idarg) pre \<and> id_matches idarg t
            \<longrightarrow> (\<exists>t'. updateTask c idarg
                          \<lparr>given_id = None, given_props = [(''status'', ''Completed'')]\<rparr> st
                        = Inr (Some t', Some (Json (pre @ t' # post)))
                  \<and> task_id t' = task_id t
                  \<and> get_prop ''status'' t' = Some ''Completed''
                  \<and> get_prop ''updatedAt'' t' = Some c
                  \<and> get_prop ''title'' t' = get_prop ''title'' t
                  \<and> get_prop ''description'' t' = get_prop ''description'' t
                  \<and> get_prop ''priority'' t' = get_prop ''priority'' t
                  \<and> get_prop ''dueDate'' t' = get_prop ''dueDate'' t
                  \<and> get_prop ''createdAt'' t' = get_prop ''createdAt'' t
                  \<and> (\<forall>k. k \<noteq> ''status'' \<and> k \<noteq> ''updatedAt''
                         \<longrightarrow> get_prop k t' = get_prop k t)))"
proof (intro conjI allI impI)
  show "\<exists>pre t post. tasks = pre @ t # post \<and> \<not> list_ex (id_matches idarg) pre
      \<and> id_matches idarg t"
    by (rule first_match_split [OF assms(2)])
next
  fix pre t post
  let ?u = "\<lparr>given_id = None, given_props = [(''status'', ''Completed'')]\<rparr>"
  let ?t' = "merged c t ?u"
  assume a: "tasks = pre @ t # post \<and> \<not> list_ex (id_matches idarg) pre \<and> id_matches idarg t"
  with assms(1) have r: "getAllTasks st = Inr (pre @ t # post)"
    and n: "\<not> list_ex (id_matches idarg) pre" and m: "id_matches idarg t"
    by simp_all
  have u: "updateTask c idarg ?u st = Inr (Some ?t', Some (Json (pre @ ?t' # post)))"
    by (rule updateTask_first [OF r n m])
  have g: "\<forall>k. k \<noteq> ''status'' \<and> k \<noteq> ''updatedAt'' \<longrightarrow> get_prop k ?t' = get_prop k t"
    by (simp add: merged_completed_props)
  have h: "get_prop ''status'' ?t' = Some ''Completed''" "get_prop ''updatedAt'' ?t' = Some c"
    "get_prop ''title'' ?t' = get_prop ''title'' t"
    "get_prop ''description'' ?t' = get_prop ''description'' t"
    "get_prop ''priority'' ?t' = get_prop ''priority'' t"
    "get_prop ''dueDate'' ?t' = get_prop ''dueDate'' t"
    "get_prop ''createdAt'' ?t' = get_prop ''createdAt'' t"
    by (simp_all add: merged_completed_props)
  have k: "task_id ?t' = task_id t"
    by (rule merged_completed_id)
  from u k h g
  show "\<exists>t'. updateTask c idarg ?u st = Inr (Some t', Some (Json (pre @ t' # post)))
      \<and> task_id t' = task_id t
      \<and> get_prop ''status'' t' = Some ''Completed''
      \<and> get_prop ''updatedAt'' t' = Some c
      \<and> get_prop ''title'' t' = get_prop ''title'' t
      \<and> get_prop ''description'' t' = get_prop ''description'' t
      \<and> get_prop ''priority'' t' = get_prop ''priority'' t
      \<and> get_prop ''dueDate'' t' = get_prop ''dueDate'' t
      \<and> get_prop ''createdAt'' t' = get_prop ''createdAt'' t
      \<and> (\<forall>k. k \<noteq> ''status'' \<and> k \<noteq> ''updatedAt'' \<longrightarrow> get_prop k t' = get_prop k t)"
    by (intro exI [of _ ?t'] conjI)
qed

text \<open>
  Three tasks, the second and the third with id 2: the second is the one completed, the
  first and the third stay as they are.
\<close>

theorem updateTask_completed_frame_witness:
  "updateTask ''2025-09-01T08:00:00.000Z'' ''2''
      \<lparr>given_id = None, given_props = [(''status'', ''Completed'')]\<rparr>
      (Some (Json
        [\<lparr>task_id = 1, props = [(''title'', ''One''), (''status'', ''Pending'')]\<rparr>,
         \<lparr>task_id = 2, props = [(''title'', ''Two''), (''status'', ''Pending''),
            (''updatedAt'', ''2025-08-20T10:00:00Z'')]\<rparr>,
         \<lparr>task_id = 2, props = [(''title'', ''Two again''), (''status'', ''Pending'')]\<rparr>]))
    = Inr (Some \<lparr>task_id = 2, props = [(''title'', ''Two''), (''status'', ''Completed''),
                   (''updatedAt'', ''2025-09-01T08:00:00.000Z'')]\<rparr>,
           Some (Json
        [\<lparr>task_id = 1, props = [(''title'', ''One''), (''status'', ''Pending'')]\<rparr>,
         \<lparr>task_id = 2, props = [(''title'', ''Two''), (''status'', ''Completed''),
            (''updatedAt'', ''2025-09-01T08:00:00.000Z'')]\<rparr>,
         \<lparr>task_id = 2, props = [(''title'', ''Two again''), (''status'', ''Pending'')]\<rparr>]))"
proof -
  let ?a = "\<lparr>task_id = 1, props = [(''title'', ''One''), (''status'', ''Pending'')]\<rparr>"
  let ?b = "\<lparr>task_id = 2, props = [(''title'', ''Two''), (''status'', ''Pending''),
            (''updatedAt'', ''2025-08-20T10:00:00Z'')]\<rparr>"
  let ?c = "\<lparr>task_id = 2, props = [(''title'', ''Two again''), (''status'', ''Pending'')]\<rparr>"
  let ?u = "\<lparr>given_id = None, given_props = [(''status'', ''Completed'')]\<rparr>"
  have r: "getAllTasks (Some (Json [?a, ?b, ?c])) = Inr [?a, ?b, ?c]"
    by (simp add: getAllTasks_simps)
  have p: "parseInt ''2'' = Finite 2"
    by (simp add: parseInt_eval)
  have e: "list_ex (id_matches ''2'') [?a, ?b, ?c]"
    by (simp add: id_matches_def p)
  have d: "[?a, ?b, ?c] = [?a] @ ?b # [?c] \<and> \<not> list_ex (id_matches ''2'') [?a]
      \<and> id_matches ''2'' ?b"
    by (simp add: id_matches_def p)
  from updateTask_completed_frame [OF r e, of "''2025-09-01T08:00:00.000Z''"] d
  obtain t' where u: "updateTask ''2025-09-01T08:00:00.000Z'' ''2'' ?u (Some (Json [?a, ?b, ?c]))
      = Inr (Some t', Some (Json ([?a] @ t' # [?c])))"
    by blast
  have "updateTask ''2025-09-01T08:00:00.000Z'' ''2'' ?u (Some (Json [?a, ?b, ?c]))
      = Inr (Some (merged ''2025-09-01T08:00:00.000Z'' ?b ?u),
             Some (Json ([?a] @ merged ''2025-09-01T08:00:00.000Z'' ?b ?u # [?c])))"
    by (rule updateTask_first) (simp_all add: getAllTasks_simps id_matches_def p)
  with u have "t' = merged ''2025-09-01T08:00:00.000Z'' ?b ?u"
    by simp
  then have "t' = \<lparr>task_id = 2, props = [(''title'', ''Two''), (''status'', ''Completed''),
                   (''updatedAt'', ''2025-09-01T08:00:00.000Z'')]\<rparr>"
    by (simp add: merged_def spread_id_def)
  with u show ?thesis by simp
qed

subsection \<open>Faults at the access layer\<close>

text \<open>The three writing methods catch whatever the storage method throws.\<close>

lemma api_createTask_catches:
  assumes "createTask c1 c2 taskData st = Inl e"
  shows "api_createTask c1 c2 taskData st =
    (Inr \<lparr>success = False, data = No_data, message = ''Failed to create task''\<rparr>, st)"
  using assms by (simp add: api_createTask_def)

lemma api_updateTask_catches:
  assumes "updateTask c idarg updateData st = Inl e"
  shows "api_updateTask c idarg updateData st =
    (Inr \<lparr>success = False, data = No_data, message = ''Failed to update task''\<rparr>, st)"
  using assms by (simp add: api_updateTask_def)

lemma api_deleteTask_catches:
  assumes "deleteTask idarg st = Inl e"
  shows "api_deleteTask idarg st =
    (Inr \<lparr>success = False, data = No_data, message = ''Failed to delete task''\<rparr>, st)"
  using assms by (simp add: api_deleteTask_def)

lemma api_writes_resolve:
  "\<exists>env st'. api_createTask c1 c2 taskData st = (Inr env, st')"
  "\<exists>env st'. api_updateTask c idarg updateData st = (Inr env, st')"
  "\<exists>env st'. api_deleteTask idarg st = (Inr env, st')"
  by (auto simp: api_createTask_def api_updateTask_def api_deleteTask_def
      split: sum.splits option.splits prod.splits)

text \<open>The two reading methods have no handler: the fault of the storage method is the
  rejection of the promise.\<close>

lemma api_getTasks_rejects:
  assumes "getAllTasks st = Inl e"
  shows "api_getTasks st = (Inl e, st)"
  using assms by (simp add: api_getTasks_def)

lemma api_getTask_rejects:
  assumes "getTaskById idarg st = Inl e"
  shows "api_getTask idarg st = (Inl e, st)"
  using assms by (simp add: api_getTask_def)

text \<open>
  Claim C2 does not hold of the code. On a slot whose text does not deserialize, the
  storage layer throws in all five operations. \<open>api_createTask\<close>, \<open>api_updateTask\<close> and
  \<open>api_deleteTask\<close> catch the fault and resolve to a failure envelope, as the claim says;
  \<open>api_getTasks\<close> and \<open>api_getTask\<close> reject with the \<^verbatim>\<open>SyntaxError\<close>.
\<close>

theorem api_reads_reject_on_malformed:
  "api_getTasks (Some Malformed) = (Inl SyntaxError, Some Malformed)
   \<and> api_getTask idarg (Some Malformed) = (Inl SyntaxError, Some Malformed)
   \<and> api_createTask c1 c2 taskData (Some Malformed) =
       (Inr \<lparr>success = False, data = No_data, message = ''Failed to create task''\<rparr>,
        Some Malformed)
   \<and> api_updateTask c idarg updateData (Some Malformed) =
       (Inr \<lparr>success = False, data = No_data, message = ''Failed to update task''\<rparr>,
        Some Malformed)
   \<and> api_deleteTask idarg (Some Malformed) =
       (Inr \<lparr>success = False, data = No_data, message = ''Failed to delete task''\<rparr>,
        Some Malformed)"
proof -
  have g: "getAllTasks (Some Malformed) = Inl SyntaxError"
    by (simp add: getAllTasks_simps)
  have a: "api_getTasks (Some Malformed) = (Inl SyntaxError, Some Malformed)"
    by (rule api_getTasks_rejects [OF g])
  have "getTaskById idarg (Some Malformed) = Inl SyntaxError"
    by (simp add: getTaskById_def g)
  then have b: "api_getTask idarg (Some Malformed) = (Inl SyntaxError, Some Malformed)"
    by (rule api_getTask_rejects)
  have "createTask c1 c2 taskData (Some Malformed) = Inl SyntaxError"
    by (simp add: createTask_def g)
  then have c: "api_createTask c1 c2 taskData (Some Malformed) =
       (Inr \<lparr>success = False, data = No_data, message = ''Failed to create task''\<rparr>,
        Some Malformed)"
    by (rule api_createTask_catches)
  have "updateTask c idarg updateData (Some Malformed) = Inl SyntaxError"
    by (simp add: updateTask_def g)
  then have d: "api_updateTask c idarg updateData (Some Malformed) =
       (Inr \<lparr>success = False, data = No_data, message = ''Failed to update task''\<rparr>,
        Some Malformed)"
    by (rule api_updateTask_catches)
  have "deleteTask idarg (Some Malformed) = Inl SyntaxError"
    by (simp add: deleteTask_def g)
  then have e: "api_deleteTask idarg (Some Malformed) =
       (Inr \<lparr>success = False, data = No_data, message = ''Failed to delete task''\<rparr>,
        Some Malformed)"
    by (rule api_deleteTask_catches)
  from a b c d e show ?thesis by (intro conjI)
qed

subsection \<open>Decimal numerals under \<open>parseInt\<close>\<close>

lemma of_char_decimal_char:
  assumes "(d::nat) < 10"
  shows "(of_char (char_of (48 + d)) :: nat) = 48 + d"
  using assms by simp

lemma digit_val_decimal_char:
  assumes "(d::nat) < 10"
  shows "digit_val (char_of (48 + d)) = d"
  using assms by (simp add: digit_val_def Let_def of_char_decimal_char del: of_char_of)

lemma is_digit_decimal_char:
  assumes "(d::nat) < 10"
  shows "is_digit 10 (char_of (48 + d))"
  using assms by (simp add: is_digit_def digit_val_decimal_char)

lemma decimal_char_plain:
  assumes "(d::nat) < 10"
  shows "\<not> is_ws (char_of (48 + d))"
    and "char_of (48 + d) \<noteq> CHR ''+''" and "char_of (48 + d) \<noteq> CHR ''-''"
    and "char_of (48 + d) = CHR ''0'' \<longleftrightarrow> d = 0"
proof -
  have e: "c = c' \<longleftrightarrow> (of_char c :: nat) = of_char c'" for c c' :: char
    by simp
  show "\<not> is_ws (char_of (48 + d))"
    unfolding is_ws_def e of_char_decimal_char [OF assms] using assms by simp
  show "char_of (48 + d) \<noteq> CHR ''+''"
    unfolding e of_char_decimal_char [OF assms] by simp
  show "char_of (48 + d) \<noteq> CHR ''-''"
    unfolding e of_char_decimal_char [OF assms] by simp
  show "char_of (48 + d) = CHR ''0'' \<longleftrightarrow> d = 0"
    unfolding e of_char_decimal_char [OF assms] by simp
qed

lemma decimal_digits: "list_all (is_digit 10) (decimal n)"
proof (induction n rule: decimal.induct)
  case (1 n)
  show ?case
  proof (cases "n < 10")
    case True
    then show ?thesis by (simp add: decimal.simps [of n] is_digit_decimal_char)
  next
    case False
    with 1 show ?thesis by (simp add: decimal.simps [of n] is_digit_decimal_char)
  qed
qed

lemma digits_value_snoc:
  "digits_value R (Z @ [c]) = digits_value R Z * R + digit_val c"
  by (simp add: digits_value_def)

lemma digits_value_decimal: "digits_value 10 (decimal n) = n"
proof (induction n rule: decimal.induct)
  case (1 n)
  show ?case
  proof (cases "n < 10")
    case True
    then show ?thesis
      by (simp add: decimal.simps [of n] digits_value_def digit_val_decimal_char)
  next
    case False
    with 1 have "digits_value 10 (decimal (n div 10)) = n div 10" by simp
    with False show ?thesis
      by (simp add: decimal.simps [of n] digits_value_snoc digit_val_decimal_char)
  qed
qed

text \<open>The first character of a decimal numeral: a digit, and \<open>0\<close> only for zero.\<close>

lemma decimal_head:
  "\<exists>d ds. decimal n = char_of (48 + d) # ds \<and> d < (10::nat) \<and> (d = 0 \<longrightarrow> n = 0 \<and> ds = [])"
proof (induction n rule: decimal.induct)
  case (1 n)
  show ?case
  proof (cases "n < 10")
    case True
    then have "decimal n = char_of (48 + n) # [] \<and> n < 10 \<and> (n = 0 \<longrightarrow> n = 0 \<and> [] = ([]::string))"
      by (simp add: decimal.simps [of n])
    then show ?thesis by blast
  next
    case False
    with 1 obtain d :: nat and ds where
      h: "decimal (n div 10) = char_of (48 + d) # ds" "d < 10" "d = 0 \<longrightarrow> n div 10 = 0 \<and> ds = []"
      by blast
    from False have "n div 10 \<noteq> 0" by simp
    with h(3) have "d \<noteq> 0" by blast
    with False h(1,2) have "decimal n = char_of (48 + d) # (ds @ [char_of (48 + n mod 10)])
        \<and> d < 10 \<and> (d = 0 \<longrightarrow> n = 0 \<and> ds @ [char_of (48 + n mod 10)] = [])"
      by (simp add: decimal.simps [of n])
    then show ?thesis by blast
  qed
qed

lemma takeWhile_numeral:
  assumes "list_all P xs" and "case ys of [] \<Rightarrow> True | y # _ \<Rightarrow> \<not> P y"
  shows "takeWhile P (xs @ ys) = xs"
proof -
  from assms(2) have "takeWhile P ys = []" by (cases ys) simp_all
  moreover from assms(1) have "takeWhile P (xs @ ys) = xs @ takeWhile P ys"
    by (simp add: takeWhile_append2 list_all_iff)
  ultimately show ?thesis by simp
qed

lemma parse_numeral_decimal:
  assumes "n < 2 ^ 53"
    and "case rest of [] \<Rightarrow> True
           | r # _ \<Rightarrow> \<not> is_digit 10 r \<and> \<not> (n = 0 \<and> (r = CHR ''x'' \<or> r = CHR ''X''))"
  shows "parse_numeral sign (decimal n @ rest) = Finite (sign * int n)"
proof -
  obtain d :: nat and ds where
    h: "decimal n = char_of (48 + d) # ds" "d < 10" "d = 0 \<longrightarrow> n = 0 \<and> ds = []"
    using decimal_head [of n] by blast
  have nohex: "(case decimal n @ rest of
                  a # b # _ \<Rightarrow> a = CHR ''0'' \<and> (b = CHR ''x'' \<or> b = CHR ''X'')
                | _ \<Rightarrow> False) = False"
  proof (cases "d = 0")
    case True
    with h have "decimal n = [CHR ''0'']" "n = 0" using decimal_char_plain(4) [of 0] by auto
    with assms(2) show ?thesis by (cases rest) auto
  next
    case False
    with h(2) have "char_of (48 + d) \<noteq> CHR ''0''" by (simp add: decimal_char_plain(4))
    with h(1) show ?thesis by (cases "ds @ rest") auto
  qed
  from assms(2) have "case rest of [] \<Rightarrow> True | r # _ \<Rightarrow> \<not> is_digit 10 r"
    by (cases rest) simp_all
  then have Z: "takeWhile (is_digit 10) (decimal n @ rest) = decimal n"
    by (rule takeWhile_numeral [OF decimal_digits])
  from h(1) have ne: "decimal n \<noteq> []" by simp
  show ?thesis
    unfolding parse_numeral_def nohex
    by (simp add: Z ne digits_value_decimal signed_number_small [OF assms(1)])
qed

lemma parseInt_decimal:
  assumes "list_all is_ws ws"
    and "n < 2 ^ 53"
    and "case rest of [] \<Rightarrow> True
         | r # _ \<Rightarrow> \<not> is_digit 10 r \<and> \<not> (n = 0 \<and> (r = CHR ''x'' \<or> r = CHR ''X''))"
  shows "parseInt (ws @ decimal n @ rest) = Finite (int n)"
    and "parseInt (ws @ CHR ''+'' # decimal n @ rest) = Finite (int n)"
    and "parseInt (ws @ CHR ''-'' # decimal n @ rest) = Finite (- int n)"
proof -
  obtain d :: nat and ds where
    h: "decimal n = char_of (48 + d) # ds" "d < 10"
    using decimal_head [of n] by blast
  have drop: "dropWhile is_ws (ws @ c # cs) = c # cs" if "\<not> is_ws c" for c cs
    using assms(1) that by (simp add: dropWhile_append2 list_all_iff)
  have a: "parse_numeral s (decimal n @ rest) = Finite (s * int n)" for s
    by (rule parse_numeral_decimal [OF assms(2,3)])
  have "dropWhile is_ws (ws @ decimal n @ rest) = char_of (48 + d) # ds @ rest"
    using drop [of "char_of (48 + d)" "ds @ rest"] h by (simp add: decimal_char_plain(1))
  then show "parseInt (ws @ decimal n @ rest) = Finite (int n)"
    using a [of 1] h by (simp add: parseInt_def decimal_char_plain)
  have "dropWhile is_ws (ws @ CHR ''+'' # decimal n @ rest) = CHR ''+'' # decimal n @ rest"
    by (rule drop) (simp add: is_ws_def)
  then show "parseInt (ws @ CHR ''+'' # decimal n @ rest) = Finite (int n)"
    using a [of 1] by (simp add: parseInt_def)
  have "dropWhile is_ws (ws @ CHR ''-'' # decimal n @ rest) = CHR ''-'' # decimal n @ rest"
    by (rule drop) (simp add: is_ws_def)
  then show "parseInt (ws @ CHR ''-'' # decimal n @ rest) = Finite (- int n)"
    using a [of "- 1"] by (simp add: parseInt_def)
qed

subsection \<open>Locating a task by the integer parse of the id\<close>

lemma id_matches_Finite:
  assumes "parseInt idarg = Finite k"
  shows "id_matches idarg = (\<lambda>t. task_id t = k)"
  using assms by (auto simp: fun_eq_iff id_matches_def)

lemma id_matches_no_integer:
  assumes "\<forall>k. parseInt idarg \<noteq> Finite k"
  shows "id_matches idarg = (\<lambda>t. False)"
  using assms by (simp add: fun_eq_iff id_matches_def)

text \<open>
  A prefix \<^verbatim>\<open>0x\<close> is read as hexadecimal, and without digits after it there is no
  numeral; a numeral beyond \<open>2^53\<close> is rounded to a double; the no-break space is white
  space.
\<close>

lemma parseInt_examples:
  "parseInt ''0x1A'' = Finite 26"
  "parseInt ''0x'' = NaN"
  "parseInt ''9007199254740993'' = Finite 9007199254740992"
  "parseInt [CHR 0xA0, CHR ''7''] = Finite 7"
proof -
  show "parseInt ''0x1A'' = Finite 26" "parseInt ''0x'' = NaN"
    "parseInt [CHR 0xA0, CHR ''7''] = Finite 7"
    by (simp_all add: parseInt_eval)
  have "digits_value 10 ''9007199254740993'' = 9007199254740993"
    by (simp add: digits_value_def digit_val_def)
  then show "parseInt ''9007199254740993'' = Finite 9007199254740992"
    by (simp add: parseInt_def parse_numeral_def is_ws_def is_digit_def digit_val_def
        signed_number_def round_double_tie)
qed

text \<open>
  Claim C10. On a readable slot, \<open>getTaskById\<close>, \<open>updateTask\<close> and \<open>deleteTask\<close> decide on
  each task by comparing its id with \<open>parseInt\<close> of the argument. When the argument
  parses to the integer \<open>k\<close>: if no task has id \<open>k\<close>, \<open>getTaskById\<close> and \<open>updateTask\<close>
  return absence and the slot is as it was; otherwise, with \<open>t\<close> the first task with id
  \<open>k\<close>, \<open>getTaskById\<close> returns \<open>t\<close> and \<open>updateTask\<close> puts the merged task in the place of
  \<open>t\<close>; \<open>deleteTask\<close> keeps exactly the tasks whose id is not \<open>k\<close>. When the argument
  parses to no integer, no task matches: \<open>getTaskById\<close> and \<open>updateTask\<close> return absence,
  \<open>deleteTask\<close> writes the collection back, and none of them raises. A string made of white
  space, an optional sign and the decimal numeral of a safe integer \<open>n\<close>, followed by
  nothing or by a character that is not a decimal digit, parses to \<open>n\<close> with that sign (the
  numeral \<open>0\<close> followed by \<open>x\<close> or \<open>X\<close> apart, which starts a hexadecimal numeral).
\<close>

theorem lookup_by_parseInt:
  assumes "getAllTasks st = Inr tasks"
  shows "(parseInt idarg = Finite k \<longrightarrow>
            deleteTask idarg st = Inr (True, Some (Json (filter (\<lambda>t. task_id t \<noteq> k) tasks)))
          \<and> (list_all (\<lambda>t. task_id t \<noteq> k) tasks \<longrightarrow>
                getTaskById idarg st = Inr None
              \<and> updateTask c idarg updateData st = Inr (None, st))
          \<and> (\<forall>pre t post.
                tasks = pre @ t # post \<and> list_all (\<lambda>x. task_id x \<noteq> k) pre \<and> task_id t = k
                \<longrightarrow> getTaskById idarg st = Inr (Some t)
                  \<and> updateTask c idarg updateData st =
                      Inr (Some (merged c t updateData),
                           Some (Json (pre @ merged c t updateData # post)))))
       \<and> ((\<forall>k. parseInt idarg \<noteq> Finite k) \<longrightarrow>
            getTaskById idarg st = Inr None
          \<and> updateTask c idarg updateData st = Inr (None, st)
          \<and> deleteTask idarg st = Inr (True, Some (Json tasks)))
       \<and> (list_all is_ws ws \<and> n < 2 ^ 53
          \<and> (case rest of [] \<Rightarrow> True
              | r # _ \<Rightarrow> \<not> is_digit 10 r \<and> \<not> (n = 0 \<and> (r = CHR ''x'' \<or> r = CHR ''X'')))
          \<longrightarrow> parseInt (ws @ decimal n @ rest) = Finite (int n)
            \<and> parseInt (ws @ CHR ''+'' # decimal n @ rest) = Finite (int n)
            \<and> parseInt (ws @ CHR ''-'' # decimal n @ rest) = Finite (- int n))"
proof (intro conjI impI allI)
  assume p: "parseInt idarg = Finite k"
  show "deleteTask idarg st = Inr (True, Some (Json (filter (\<lambda>t. task_id t \<noteq> k) tasks)))"
    by (simp add: deleteTask_value [OF assms] id_matches_Finite [OF p])
next
  assume p: "parseInt idarg = Finite k" and n: "list_all (\<lambda>t. task_id t \<noteq> k) tasks"
  from n have e: "\<not> list_ex (id_matches idarg) tasks"
    by (simp add: id_matches_Finite [OF p] list_all_iff list_ex_iff)
  then show "getTaskById idarg st = Inr None"
    by (simp add: getTaskById_value [OF assms] find_None_list_ex)
  from e have "findIndex (id_matches idarg) tasks = None"
    by (simp add: findIndex_None_iff)
  then show "updateTask c idarg updateData st = Inr (None, st)"
    by (rule updateTask_not_found [OF assms])
next
  fix pre t post
  assume p: "parseInt idarg = Finite k"
    and a: "tasks = pre @ t # post \<and> list_all (\<lambda>x. task_id x \<noteq> k) pre \<and> task_id t = k"
  from a assms have r: "getAllTasks st = Inr (pre @ t # post)" by simp
  from a have e: "\<not> list_ex (id_matches idarg) pre"
    by (simp add: id_matches_Finite [OF p] list_all_iff list_ex_iff)
  from a have m: "id_matches idarg t"
    by (simp add: id_matches_Finite [OF p])
  show "getTaskById idarg st = Inr (Some t)"
    by (rule getTaskById_first [OF r e m])
  show "updateTask c idarg updateData st =
      Inr (Some (merged c t updateData), Some (Json (pre @ merged c t updateData # post)))"
    by (rule updateTask_first [OF r e m])
next
  assume p: "\<forall>k. parseInt idarg \<noteq> Finite k"
  have e: "\<not> list_ex (id_matches idarg) tasks"
    by (simp add: id_matches_no_integer [OF p] list_ex_iff)
  then show "getTaskById idarg st = Inr None"
    by (simp add: getTaskById_value [OF assms] find_None_list_ex)
  from e have "findIndex (id_matches idarg) tasks = None"
    by (simp add: findIndex_None_iff)
  then show "updateTask c idarg updateData st = Inr (None, st)"
    by (rule updateTask_not_found [OF assms])
  show "deleteTask idarg st = Inr (True, Some (Json tasks))"
    by (simp add: deleteTask_value [OF assms] id_matches_no_integer [OF p])
next
  assume a: "list_all is_ws ws \<and> n < 2 ^ 53
          \<and> (case rest of [] \<Rightarrow> True
              | r # _ \<Rightarrow> \<not> is_digit 10 r \<and> \<not> (n = 0 \<and> (r = CHR ''x'' \<or> r = CHR ''X'')))"
  then have w: "list_all is_ws ws" and b: "n < 2 ^ 53"
    and r: "case rest of [] \<Rightarrow> True
              | r # _ \<Rightarrow> \<not> is_digit 10 r \<and> \<not> (n = 0 \<and> (r = CHR ''x'' \<or> r = CHR ''X''))"
    by simp_all
  show "parseInt (ws @ decimal n @ rest) = Finite (int n)"
    by (rule parseInt_decimal(1) [OF w b r])
  show "parseInt (ws @ CHR ''+'' # decimal n @ rest) = Finite (int n)"
    by (rule parseInt_decimal(2) [OF w b r])
  show "parseInt (ws @ CHR ''-'' # decimal n @ rest) = Finite (- int n)"
    by (rule parseInt_decimal(3) [OF w b r])
qed

text \<open>
  Three tasks, the second and the third with id 3. \<open>3abc\<close> parses to 3: the second task
  is the one found and updated, and both are deleted. \<open>7\<close> parses to 7 and \<open>abc\<close> to no
  integer: no task is found.
\<close>

theorem lookup_by_parseInt_witness:
  "parseInt ''3abc'' = Finite 3
   \<and> getTaskById ''3abc''
        (Some (Json [\<lparr>task_id = 1, props = [(''title'', ''One'')]\<rparr>,
                     \<lparr>task_id = 3, props = [(''title'', ''Three'')]\<rparr>,
                     \<lparr>task_id = 3, props = [(''title'', ''Three again'')]\<rparr>]))
       = Inr (Some \<lparr>task_id = 3, props = [(''title'', ''Three'')]\<rparr>)
   \<and> updateTask ''2025-09-01T08:00:00.000Z'' ''3abc''
        \<lparr>given_id = None, given_props = [(''status'', ''Completed'')]\<rparr>
        (Some (Json [\<lparr>task_id = 1, props = [(''title'', ''One'')]\<rparr>,
                     \<lparr>task_id = 3, props = [(''title'', ''Three'')]\<rparr>,
                     \<lparr>task_id = 3, props = [(''title'', ''Three again'')]\<rparr>]))
       = Inr (Some \<lparr>task_id = 3, props = [(''title'', ''Three''), (''status'', ''Completed''),
                      (''updatedAt'', ''2025-09-01T08:00:00.000Z'')]\<rparr>,
              Some (Json [\<lparr>task_id = 1, props = [(''title'', ''One'')]\<rparr>,
                     \<lparr>task_id = 3, props = [(''title'', ''Three''), (''status'', ''Completed''),
                      (''updatedAt'', ''2025-09-01T08:00:00.000Z'')]\<rparr>,
                     \<lparr>task_id = 3, props = [(''title'', ''Three again'')]\<rparr>]))
   \<and> deleteTask ''3abc''
        (Some (Json [\<lparr>task_id = 1, props = [(''title'', ''One'')]\<rparr>,
                     \<lparr>task_id = 3, props = [(''title'', ''Three'')]\<rparr>,
                     \<lparr>task_id = 3, props = [(''title'', ''Three again'')]\<rparr>]))
       = Inr (True, Some (Json [\<lparr>task_id = 1, props = [(''title'', ''One'')]\<rparr>]))
   \<and> getTaskById ''7''
        (Some (Json [\<lparr>task_id = 1, props = [(''title'', ''One'')]\<rparr>,
                     \<lparr>task_id = 3, props = [(''title'', ''Three'')]\<rparr>,
                     \<lparr>task_id = 3, props = [(''title'', ''Three again'')]\<rparr>]))
       = Inr None
   \<and> parseInt ''abc'' = NaN
   \<and> getTaskById ''abc''
        (Some (Json [\<lparr>task_id = 1, props = [(''title'', ''One'')]\<rparr>,
                     \<lparr>task_id = 3, props = [(''title'', ''Three'')]\<rparr>,
                     \<lparr>task_id = 3, props = [(''title'', ''Three again'')]\<rparr>]))
       = Inr None
   \<and> updateTask ''2025-09-01T08:00:00.000Z'' ''abc''
        \<lparr>given_id = None, given_props = [(''status'', ''Completed'')]\<rparr>
        (Some (Json [\<lparr>task_id = 1, props = [(''title'', ''One'')]\<rparr>,
                     \<lparr>task_id = 3, props = [(''title'', ''Three'')]\<rparr>,
                     \<lparr>task_id = 3, props = [(''title'', ''Three again'')]\<rparr>]))
       = Inr (None,
              Some (Json [\<lparr>task_id = 1, props = [(''title'', ''One'')]\<rparr>,
                     \<lparr>task_id = 3, props = [(''title'', ''Three'')]\<rparr>,
                     \<lparr>task_id = 3, props = [(''title'', ''Three again'')]\<rparr>]))
   \<and> deleteTask ''abc''
        (Some (Json [\<lparr>task_id = 1, props = [(''title'', ''One'')]\<rparr>,
                     \<lparr>task_id = 3, props = [(''title'', ''Three'')]\<rparr>,
                     \<lparr>task_id = 3, props = [(''title'', ''Three again'')]\<rparr>]))
       = Inr (True,
              Some (Json [\<lparr>task_id = 1, props = [(''title'', ''One'')]\<rparr>,
                     \<lparr>task_id = 3, props = [(''title'', ''Three'')]\<rparr>,
                     \<lparr>task_id = 3, props = [(''title'', ''Three again'')]\<rparr>]))
   \<and> parseInt '' -42;'' = Finite (- 42)"
proof -
  define A where "A = \<lparr>task_id = 1, props = [(''title'', ''One'')]\<rparr>"
  define B where "B = \<lparr>task_id = 3, props = [(''title'', ''Three'')]\<rparr>"
  define C where "C = \<lparr>task_id = 3, props = [(''title'', ''Three again'')]\<rparr>"
  define u where "u = \<lparr>given_id = None, given_props = [(''status'', ''Completed'')]\<rparr>"
  define S where "S = Some (Json [A, B, C])"
  have ids: "task_id A = 1" "task_id B = 3" "task_id C = 3"
    by (simp_all add: A_def B_def C_def)
  have r: "getAllTasks S = Inr [A, B, C]"
    by (simp add: S_def getAllTasks_simps)
  have d3: "decimal 3 = ''3''" and d42: "decimal 42 = ''42''"
    by (simp_all add: decimal.simps [of 3] decimal.simps [of 42] decimal.simps [of 4]
        char_eval)
  have h3: "list_all is_ws [] \<and> (3::nat) < 2 ^ 53 \<and> (case ''abc'' of [] \<Rightarrow> True
              | r # _ \<Rightarrow> \<not> is_digit 10 r \<and> \<not> ((3::nat) = 0 \<and> (r = CHR ''x'' \<or> r = CHR ''X'')))"
    by (simp add: is_digit_def digit_val_def)
  have h42: "list_all is_ws '' '' \<and> (42::nat) < 2 ^ 53 \<and> (case '';'' of [] \<Rightarrow> True
              | r # _ \<Rightarrow> \<not> is_digit 10 r \<and> \<not> ((42::nat) = 0 \<and> (r = CHR ''x'' \<or> r = CHR ''X'')))"
    by (simp add: is_digit_def digit_val_def is_ws_def)
  have pn: "parseInt ''abc'' = NaN" and p7: "parseInt ''7'' = Finite 7"
    by (simp_all add: parseInt_eval)
  from pn have nn: "\<forall>k. parseInt ''abc'' \<noteq> Finite k"
    by simp
  note a = lookup_by_parseInt [OF r, where idarg = "''3abc''" and k = 3
      and c = "''2025-09-01T08:00:00.000Z''" and updateData = u
      and ws = "[]" and rest = "''abc''" and n = 3]
  note b = lookup_by_parseInt [OF r, where idarg = "''abc''" and k = 0
      and c = "''2025-09-01T08:00:00.000Z''" and updateData = u
      and ws = "'' ''" and rest = "'';''" and n = 42]
  note c = lookup_by_parseInt [OF r, where idarg = "''7''" and k = 7
      and c = "''2025-09-01T08:00:00.000Z''" and updateData = u
      and ws = "[]" and rest = "[]" and n = 7]
  from a h3 have p3: "parseInt ''3abc'' = Finite 3"
    by (simp add: d3)
  have s: "[A, B, C] = [A] @ B # [C] \<and> list_all (\<lambda>x. task_id x \<noteq> 3) [A] \<and> task_id B = 3"
    by (simp add: ids)
  from a p3 s have g3: "getTaskById ''3abc'' S = Inr (Some B)"
    and u3: "updateTask ''2025-09-01T08:00:00.000Z'' ''3abc'' u S
      = Inr (Some (merged ''2025-09-01T08:00:00.000Z'' B u),
             Some (Json ([A] @ merged ''2025-09-01T08:00:00.000Z'' B u # [C])))"
    by blast+
  from a p3 have "deleteTask ''3abc'' S
      = Inr (True, Some (Json (filter (\<lambda>t. task_id t \<noteq> 3) [A, B, C])))"
    by blast
  then have x3: "deleteTask ''3abc'' S = Inr (True, Some (Json [A]))"
    by (simp add: ids)
  have "list_all (\<lambda>t. task_id t \<noteq> 7) [A, B, C]"
    by (simp add: ids)
  with c p7 have g7: "getTaskById ''7'' S = Inr None"
    by blast
  from b nn have n1: "getTaskById ''abc'' S = Inr None"
    and n2: "updateTask ''2025-09-01T08:00:00.000Z'' ''abc'' u S = Inr (None, S)"
    and n3: "deleteTask ''abc'' S = Inr (True, Some (Json [A, B, C]))"
    by blast+
  from b h42 have p42: "parseInt '' -42;'' = Finite (- 42)"
    by (simp add: d42)
  have m: "merged ''2025-09-01T08:00:00.000Z'' B u
      = \<lparr>task_id = 3, props = [(''title'', ''Three''), (''status'', ''Completed''),
                      (''updatedAt'', ''2025-09-01T08:00:00.000Z'')]\<rparr>"
    by (simp add: merged_def spread_id_def B_def u_def)
  from p3 g3 u3 x3 g7 pn n1 n2 n3 p42 show ?thesis
    unfolding m unfolding S_def A_def B_def C_def u_def by simp
qed

subsection \<open>The filtered view\<close>

lemma includes_str_sublist: "includes_str s q \<longleftrightarrow> sublist q s"
  by (induction s) (auto simp: sublist_Cons_right)

lemma sublist_map_iff:
  "sublist (map f q) (map f s) \<longleftrightarrow> (\<exists>u v w. s = u @ v @ w \<and> map f v = map f q)"
proof
  assume "sublist (map f q) (map f s)"
  then obtain ps ss where "map f s = ps @ map f q @ ss"
    by (auto simp: sublist_def)
  then have "\<exists>u r. s = u @ r \<and> ps = map f u \<and> map f q @ ss = map f r"
    by (simp only: map_eq_append_conv)
  then obtain u r where u: "s = u @ r" "map f r = map f q @ ss"
    by auto
  from u(2) have "\<exists>v w. r = v @ w \<and> map f q = map f v \<and> ss = map f w"
    by (simp only: map_eq_append_conv)
  then obtain v w where "r = v @ w" "map f v = map f q"
    by auto
  with u(1) show "\<exists>u v w. s = u @ v @ w \<and> map f v = map f q" by blast
next
  assume "\<exists>u v w. s = u @ v @ w \<and> map f v = map f q"
  then obtain u v w where "s = u @ v @ w" "map f v = map f q" by blast
  then have "map f s = map f u @ map f q @ map f w" by simp
  then show "sublist (map f q) (map f s)" by (auto simp: sublist_def)
qed

lemma includes_ci_substring:
  "includes_str (toLowerCase s) (toLowerCase q) \<longleftrightarrow> ci_substring q s"
  unfolding includes_str_sublist ci_substring_def toLowerCase_def by (rule sublist_map_iff)

lemma trim_empty_iff: "trim q = [] \<longleftrightarrow> list_all is_ws q"
proof -
  have "trim q = [] \<longleftrightarrow> (\<forall>x\<in>set (dropWhile is_ws q). is_ws x)"
    by (simp add: trim_def dropWhile_eq_Nil_conv)
  also have "\<dots> \<longleftrightarrow> dropWhile is_ws q = []"
  proof (cases "dropWhile is_ws q")
    case Nil
    show ?thesis unfolding Nil by simp
  next
    case (Cons c cs)
    with hd_dropWhile [of is_ws q] have "\<not> is_ws c" by simp
    then show ?thesis unfolding Cons by simp
  qed
  also have "\<dots> \<longleftrightarrow> list_all is_ws q"
    by (simp add: dropWhile_eq_Nil_conv list_all_iff)
  finally show ?thesis .
qed

lemma filter_throwing_total:
  assumes "\<forall>x \<in> set xs. P x = Inr (Q x)"
  shows "filter_throwing P xs = Inr (filter Q xs)"
  using assms by (induction xs) auto

lemma getFilteredTasksByStatus_filter:
  "getFilteredTasksByStatus f T = filter (status_selected f) T"
proof -
  have "status_selected f =
      (\<lambda>t. if f = ''pending'' then get_prop ''status'' t = Some ''Pending''
           else if f = ''completed'' then get_prop ''status'' t = Some ''Completed''
           else True)"
    by (simp add: fun_eq_iff status_selected_def)
  then show ?thesis by (auto simp: getFilteredTasksByStatus_def)
qed

lemma matches_query_value:
  assumes "get_prop ''title'' t \<noteq> None" and "get_prop ''description'' t \<noteq> None"
  shows "matches_query q t =
    Inr ((\<exists>s. get_prop ''title'' t = Some s \<and> ci_substring q s)
         \<or> (\<exists>s. get_prop ''description'' t = Some s \<and> ci_substring q s))"
  using assms by (auto simp: matches_query_def includes_ci_substring)

text \<open>
  Claim C8, as stated, fails for a query of white space only: \<^verbatim>\<open>searchTasks\<close> tests
  \<^verbatim>\<open>query.trim()\<close> first and then shows the whole status view. The query of one space is
  a substring of neither \<open>abc\<close> nor \<open>def\<close>, and the task is shown.
\<close>

theorem searchTasks_blank_query:
  "searchTasks ''all'' '' ''
      [\<lparr>task_id = 1, props = [(''title'', ''abc''), (''description'', ''def''),
                               (''status'', ''Pending'')]\<rparr>]
    = Inr [\<lparr>task_id = 1, props = [(''title'', ''abc''), (''description'', ''def''),
                               (''status'', ''Pending'')]\<rparr>]
   \<and> \<not> ci_substring '' '' ''abc'' \<and> \<not> ci_substring '' '' ''def''"
proof -
  have a: "\<not> ci_substring '' '' ''abc''" "\<not> ci_substring '' '' ''def''"
    unfolding includes_ci_substring [symmetric] by (simp_all add: toLowerCase_def)
  have "trim '' '' = []"
    by (simp add: trim_def is_ws_def)
  then have "searchTasks ''all'' '' ''
      [\<lparr>task_id = 1, props = [(''title'', ''abc''), (''description'', ''def''),
                               (''status'', ''Pending'')]\<rparr>]
    = Inr [\<lparr>task_id = 1, props = [(''title'', ''abc''), (''description'', ''def''),
                               (''status'', ''Pending'')]\<rparr>]"
    by (simp add: searchTasks_def getFilteredTasksByStatus_def)
  with a show ?thesis by (intro conjI)
qed

text \<open>
  Claim C8, amended. The filter \<open>pending\<close> selects exactly the tasks whose status is
  \<open>Pending\<close>, \<open>completed\<close> those whose status is \<open>Completed\<close>, and \<open>all\<close> every task, in
  the order of the cached list. A query that is empty or white space only shows the view
  of the active filter. For any other query, on tasks that have a title and a
  description, the tasks shown are exactly those of the cached list that the active
  filter selects and whose title or description has the query as a case-insensitive
  substring, in the order of the cached list.
\<close>

theorem searchTasks_filtered_view:
  "getFilteredTasksByStatus ''pending'' T = filter (\<lambda>t. get_prop ''status'' t = Some ''Pending'') T
   \<and> getFilteredTasksByStatus ''completed'' T
       = filter (\<lambda>t. get_prop ''status'' t = Some ''Completed'') T
   \<and> getFilteredTasksByStatus ''all'' T = T
   \<and> (list_all is_ws q \<longrightarrow> searchTasks f q T = Inr (getFilteredTasksByStatus f T))
   \<and> (\<not> list_all is_ws q
       \<and> list_all (\<lambda>t. get_prop ''title'' t \<noteq> None \<and> get_prop ''description'' t \<noteq> None) T
       \<longrightarrow> searchTasks f q T = Inr (filter (shown_for f q) T))"
proof (intro conjI impI)
  show "getFilteredTasksByStatus ''pending'' T
      = filter (\<lambda>t. get_prop ''status'' t = Some ''Pending'') T"
    by (simp add: getFilteredTasksByStatus_def)
  show "getFilteredTasksByStatus ''completed'' T
      = filter (\<lambda>t. get_prop ''status'' t = Some ''Completed'') T"
    by (simp add: getFilteredTasksByStatus_def)
  show "getFilteredTasksByStatus ''all'' T = T"
    by (simp add: getFilteredTasksByStatus_def)
next
  assume "list_all is_ws q"
  then show "searchTasks f q T = Inr (getFilteredTasksByStatus f T)"
    by (simp add: searchTasks_def trim_empty_iff)
next
  assume a: "\<not> list_all is_ws q
       \<and> list_all (\<lambda>t. get_prop ''title'' t \<noteq> None \<and> get_prop ''description'' t \<noteq> None) T"
  let ?m = "\<lambda>t. (\<exists>s. get_prop ''title'' t = Some s \<and> ci_substring q s)
         \<or> (\<exists>s. get_prop ''description'' t = Some s \<and> ci_substring q s)"
  from a have "\<forall>t \<in> set (filter (status_selected f) T). matches_query q t = Inr (?m t)"
    by (auto simp: list_all_iff matches_query_value)
  then have "filter_throwing (matches_query q) (filter (status_selected f) T)
      = Inr (filter ?m (filter (status_selected f) T))"
    by (rule filter_throwing_total)
  moreover have "shown_for f q = (\<lambda>t. status_selected f t \<and> ?m t)"
    by (simp only: fun_eq_iff shown_for_def) simp
  then have "filter ?m (filter (status_selected f) T) = filter (shown_for f q) T"
    by (simp only: filter_filter)
  ultimately show "searchTasks f q T = Inr (filter (shown_for f q) T)"
    using a by (simp add: searchTasks_def trim_empty_iff getFilteredTasksByStatus_filter)
qed




text \<open>On the sample tasks: \<open>MEAN\<close> among the pending ones, and a query of two spaces.\<close>

theorem searchTasks_filtered_view_witness:
  "\<not> list_all is_ws ''MEAN''
   \<and> list_all (\<lambda>t. get_prop ''title'' t \<noteq> None \<and> get_prop ''description'' t \<noteq> None) sampleTasks
   \<and> searchTasks ''pending'' ''MEAN'' sampleTasks
       = Inr (filter (shown_for ''pending'' ''MEAN'') sampleTasks)
   \<and> map task_id (filter (shown_for ''pending'' ''MEAN'') sampleTasks) = [1]
   \<and> list_all is_ws ''  ''
   \<and> searchTasks ''completed'' ''  '' sampleTasks
       = Inr (getFilteredTasksByStatus ''completed'' sampleTasks)
   \<and> map task_id (getFilteredTasksByStatus ''completed'' sampleTasks) = [2, 3]
   \<and> map task_id (getFilteredTasksByStatus ''pending'' sampleTasks) = [1, 4, 5]"
proof -
  have q: "\<not> list_all is_ws ''MEAN''" and b: "list_all is_ws ''  ''"
    by (simp_all add: is_ws_def)
  have w: "list_all (\<lambda>t. get_prop ''title'' t \<noteq> None \<and> get_prop ''description'' t \<noteq> None)
      sampleTasks"
    by (simp add: sampleTasks_def get_prop_def)
  note v = searchTasks_filtered_view [where T = sampleTasks and q = "''MEAN''" and f = "''pending''"]
  note u = searchTasks_filtered_view [where T = sampleTasks and q = "''  ''" and f = "''completed''"]
  from v q w have s: "searchTasks ''pending'' ''MEAN'' sampleTasks
       = Inr (filter (shown_for ''pending'' ''MEAN'') sampleTasks)"
    by blast
  have "map_sum id (map task_id) (searchTasks ''pending'' ''MEAN'' sampleTasks) = Inr [1]"
    by (simp add: searchTasks_def trim_def is_ws_def getFilteredTasksByStatus_def sampleTasks_def
        get_prop_def matches_query_def toLowerCase_def char_eval)
  with s have m: "map task_id (filter (shown_for ''pending'' ''MEAN'') sampleTasks) = [1]"
    by simp
  from u b have s2: "searchTasks ''completed'' ''  '' sampleTasks
       = Inr (getFilteredTasksByStatus ''completed'' sampleTasks)"
    by blast
  from u have "getFilteredTasksByStatus ''completed'' sampleTasks
      = filter (\<lambda>t. get_prop ''status'' t = Some ''Completed'') sampleTasks"
    by blast
  then have c: "map task_id (getFilteredTasksByStatus ''completed'' sampleTasks) = [2, 3]"
    by (simp add: sampleTasks_def get_prop_def)
  from u have "getFilteredTasksByStatus ''pending'' sampleTasks
      = filter (\<lambda>t. get_prop ''status'' t = Some ''Pending'') sampleTasks"
    by blast
  then have p: "map task_id (getFilteredTasksByStatus ''pending'' sampleTasks) = [1, 4, 5]"
    by (simp add: sampleTasks_def get_prop_def)
  from q w s m b s2 c p show ?thesis by (intro conjI)
qed

end
